theory Spec2Isabelle
  imports Complex_Main "HOL-Library.Word" "HOL-Library.AList"
begin

section \<open>Python primitives\<close>

text \<open>
  \<open>str(n)\<close> of an integer: the decimal digits, with a minus sign for a negative one.
  A byte string is a list of 8-bit words.
\<close>

type_synonym bytes = "8 word list"

fun str_nat :: "nat \<Rightarrow> string" where
  "str_nat n =
     (if n < 10 then [''0123456789'' ! n]
      else str_nat (n div 10) @ [''0123456789'' ! (n mod 10)])"

declare str_nat.simps [simp del]

definition str_int :: "int \<Rightarrow> string" where
  "str_int i = (if i < 0 then CHR ''-'' # str_nat (nat (- i)) else str_nat (nat i))"

text \<open>
  \<open>s.replace(old, new)\<close>: every occurrence of \<open>old\<close>, left to right without
  overlap. \<open>s.split(sep)\<close> for a separator of one character.
\<close>

function py_replace :: "string \<Rightarrow> string \<Rightarrow> string \<Rightarrow> string" where
  "py_replace old new s =
     (if old = [] then new @ concat (map (\<lambda>c. c # new) s)
      else if s = [] then []
      else if take (length old) s = old then new @ py_replace old new (drop (length old) s)
      else hd s # py_replace old new (tl s))"
  by pat_completeness auto
termination
  by (relation "measure (\<lambda>(old, new, s). length s)") auto

declare py_replace.simps [simp del]

fun py_split :: "char \<Rightarrow> string \<Rightarrow> string list" where
  "py_split sep [] = [[]]"
| "py_split sep (c # cs) =
     (if c = sep then [] # py_split sep cs
      else (case py_split sep cs of
              [] \<Rightarrow> [[c]]
            | p # ps \<Rightarrow> (c # p) # ps))"

text \<open>
  \<open>int(s)\<close> on a string whose characters are code points below 256 (a header value):
  blanks are stripped at both ends, one sign may lead, and the rest is decimal digits,
  where single underscores may stand between digits. Anything else raises ValueError;
  in its message the \<open>repr\<close> of the string is written as the string between single
  quotes, which is what Python prints when the string has no quote, backslash or
  unprintable character. A well-formed run of more than 4300 digits raises ValueError as
  well (the default limit of CPython on the conversion of strings to integers).
\<close>

definition py_isspace :: "char \<Rightarrow> bool" where
  "py_isspace c = (of_char c \<in> {9, 10, 11, 12, 13, 28, 29, 30, 31, 32, 133, 160 :: nat})"

definition py_strip :: "string \<Rightarrow> string" where
  "py_strip s = rev (dropWhile py_isspace (rev (dropWhile py_isspace s)))"

definition is_digit :: "char \<Rightarrow> bool" where
  "is_digit c = (c \<in> set ''0123456789'')"

definition digit_val :: "char \<Rightarrow> nat" where
  "digit_val c = of_char c - 48"

fun parse_digits :: "nat \<Rightarrow> string \<Rightarrow> nat option" where
  "parse_digits acc [] = Some acc"
| "parse_digits acc [c] = (if is_digit c then Some (acc * 10 + digit_val c) else None)"
| "parse_digits acc (c # c' # cs) =
     (if is_digit c then parse_digits (acc * 10 + digit_val c) (c' # cs)
      else if c = CHR ''_'' \<and> is_digit c' then parse_digits (acc * 10 + digit_val c') cs
      else None)"

definition parse_decimal :: "string \<Rightarrow> nat option" where
  "parse_decimal s =
     (case s of
        [] \<Rightarrow> None
      | c # cs \<Rightarrow> if is_digit c then parse_digits (digit_val c) cs else None)"

datatype py_error = ValueError string | IndexError string

definition MAX_STR_DIGITS :: nat where
  "MAX_STR_DIGITS = 4300"

definition py_int :: "string \<Rightarrow> py_error + int" where
  "py_int s =
     (let bad = Inl (ValueError (''invalid literal for int() with base 10: '' @
                                  [CHR 0x27] @ s @ [CHR 0x27]));
          t = py_strip s;
          (negative, rest) =
             (case t of
                [] \<Rightarrow> (False, [])
              | c # cs \<Rightarrow>
                 if c = CHR ''+'' then (False, cs)
                 else if c = CHR ''-'' then (True, cs)
                 else (False, t));
          run = takeWhile (\<lambda>c. is_digit c \<or> c = CHR ''_'') rest;
          digits = length (filter is_digit run)
      in if parse_decimal run \<noteq> None \<and> digits > MAX_STR_DIGITS
         then Inl (ValueError
                     (''Exceeds the limit ('' @ str_nat MAX_STR_DIGITS @
                      '' digits) for integer string conversion: value has '' @
                      str_nat digits @
                      '' digits; use sys.set_int_max_str_digits() to increase the limit''))
         else (case parse_decimal rest of
                 None \<Rightarrow> bad
               | Some n \<Rightarrow> Inr (if negative then - int n else int n)))"

text \<open>\<open>xs[i]\<close> for an index that is not negative, and the slice \<open>xs[start:stop]\<close>.\<close>

definition py_index :: "'a list \<Rightarrow> nat \<Rightarrow> py_error + 'a" where
  "py_index xs i = (if i < length xs then Inr (xs ! i) else Inl (IndexError ''list index out of range''))"

definition py_slice :: "'a list \<Rightarrow> int \<Rightarrow> int \<Rightarrow> 'a list" where
  "py_slice xs start stop =
     (let n = int (length xs);
          lo = (if start < 0 then max (start + n) 0 else min start n);
          hi = (if stop < 0 then max (stop + n) 0 else min stop n)
      in take (nat (hi - lo)) (drop (nat lo) xs))"

text \<open>\<open>str(e)\<close> of these exceptions.\<close>

fun str_py_error :: "py_error \<Rightarrow> string" where
  "str_py_error (ValueError m) = m"
| "str_py_error (IndexError m) = m"

section \<open>Data model (app/models/video.py)\<close>

text \<open>
  The three tables of the media record store. A nullable column is an \<open>option\<close>,
  a \<open>Float\<close> column is an exact rational (the arithmetic of the code is modelled without
  rounding), an \<open>Integer\<close> column is an \<open>int\<close>, a \<open>DateTime\<close> column is a
  \<open>nat\<close> clock reading. Column defaults are written out where a row is created.
  The column \<open>updated_at\<close>, which the persistence layer stamps by itself on every
  UPDATE, is not part of the model.
\<close>

datatype VideoStatus = PENDING | UPLOADING | PROCESSING | COMPLETED | FAILED | DELETED

record Video =
  v_id :: string
  title :: string
  filename :: string
  file_path :: "string option"
  file_size :: int
  file_type :: string
  file_extension :: string
  duration :: "rat option"
  width :: "int option"
  height :: "int option"
  fps :: "rat option"
  bitrate :: "int option"
  codec :: "string option"
  status :: VideoStatus
  processing_progress :: int
  error_message :: "string option"
  thumbnail_path :: "string option"
  thumbnail_generated :: bool
  view_count :: int
  uploaded_at :: "nat option"
  processed_at :: "nat option"

record VideoUploadSession =
  us_id :: string
  us_video_id :: string
  session_token :: string
  chunk_size :: int
  bytes_uploaded :: int
  upload_progress :: rat
  us_status :: VideoStatus
  us_error_message :: "string option"
  started_at :: "nat option"
  completed_at :: "nat option"

record VideoViewSession =
  vs_id :: string
  vs_video_id :: string
  user_id :: "string option"
  session_id :: string
  ip_address :: "string option"
  user_agent :: "string option"
  current_time :: rat
  watch_duration :: rat
  completion_percentage :: rat
  is_active :: bool
  is_completed :: bool
  last_accessed :: nat

text \<open>\<open>VideoUploadSession.is_active\<close>: the status is PENDING or UPLOADING.\<close>

definition us_is_active :: "VideoUploadSession \<Rightarrow> bool" where
  "us_is_active s = (us_status s = PENDING \<or> us_status s = UPLOADING)"

text \<open>
  \<open>VideoViewSession.update_progress(current_time, video_duration)\<close>; the clock reading
  of \<open>datetime.utcnow()\<close> is the parameter \<open>now\<close>.
\<close>

definition update_progress :: "VideoViewSession \<Rightarrow> rat \<Rightarrow> rat \<Rightarrow> nat \<Rightarrow> VideoViewSession" where
  "update_progress s cur video_duration now =
     (let pct = (if video_duration > 0 then (cur / video_duration) * 100 else 0) in
      s\<lparr>current_time := cur,
        completion_percentage := pct,
        last_accessed := now,
        is_completed := (if pct \<ge> 95 then True else is_completed s)\<rparr>)"

section \<open>The record store\<close>

text \<open>
  The database is the three tables, each a list of rows. An object loaded from a table
  (or added to it) is written back in place of the row it was loaded from. The values of
  \<open>uuid.uuid4()\<close> are parameters of the operations that draw them.
\<close>

record db =
  videos :: "Video list"
  upload_sessions :: "VideoUploadSession list"
  view_sessions :: "VideoViewSession list"

datatype error =
    HTTPException nat string
  | MultipleResultsFound
  | Exception string

definition write_back :: "'a \<Rightarrow> 'a \<Rightarrow> 'a list \<Rightarrow> 'a list" where
  "write_back old new rows = map (\<lambda>r. if r = old then new else r) rows"

text \<open>\<open>Result.scalar_one_or_none()\<close>: no row, the one row, or MultipleResultsFound.\<close>

fun scalar_one_or_none :: "'a list \<Rightarrow> error + 'a option" where
  "scalar_one_or_none [] = Inr None"
| "scalar_one_or_none [x] = Inr (Some x)"
| "scalar_one_or_none (x # y # zs) = Inl MultipleResultsFound"

text \<open>\<open>VideoService.get_video_by_id\<close>, a lookup on the primary key.\<close>

definition get_video_by_id :: "db \<Rightarrow> string \<Rightarrow> Video option" where
  "get_video_by_id d video_id = find (\<lambda>v. v_id v = video_id) (videos d)"

definition select_view_session :: "db \<Rightarrow> string \<Rightarrow> string \<Rightarrow> VideoViewSession list" where
  "select_view_session d video_id sid =
     filter (\<lambda>s. vs_video_id s = video_id \<and> session_id s = sid) (view_sessions d)"

text \<open>A new \<open>VideoViewSession(...)\<close> row with the column defaults.\<close>

definition new_view_session ::
  "string \<Rightarrow> string \<Rightarrow> string \<Rightarrow> string option \<Rightarrow> string option \<Rightarrow> string option \<Rightarrow> nat
     \<Rightarrow> VideoViewSession" where
  "new_view_session new_id video_id sid uid ip ua now =
     \<lparr>vs_id = new_id, vs_video_id = video_id, user_id = uid, session_id = sid,
      ip_address = ip, user_agent = ua, current_time = 0, watch_duration = 0,
      completion_percentage = 0, is_active = True, is_completed = False,
      last_accessed = now\<rparr>"

section \<open>Progress tracker (app/services/video_service.py)\<close>

text \<open>\<open>if video.duration:\<close> holds when the duration is set and not zero.\<close>

definition duration_known :: "Video \<Rightarrow> bool" where
  "duration_known v = (case duration v of None \<Rightarrow> False | Some d \<Rightarrow> d \<noteq> 0)"

text \<open>
  \<open>VideoService.update_video_progress\<close>. The result is the error raised, or the
  committed database with the session returned.
\<close>

definition update_video_progress ::
  "db \<Rightarrow> string \<Rightarrow> string \<Rightarrow> rat \<Rightarrow> string option \<Rightarrow> string \<Rightarrow> nat
     \<Rightarrow> error + (db \<times> VideoViewSession)" where
  "update_video_progress d video_id sid cur uid new_id now =
     (case get_video_by_id d video_id of
        None \<Rightarrow> Inl (HTTPException 404 ''Video not found'')
      | Some video \<Rightarrow>
         (case scalar_one_or_none (select_view_session d video_id sid) of
            Inl e \<Rightarrow> Inl e
          | Inr found \<Rightarrow>
             (let (d1, view_session) =
                    (case found of
                       Some s \<Rightarrow> (d, s)
                     | None \<Rightarrow>
                        (let s = new_view_session new_id video_id sid uid None None now
                         in (d\<lparr>view_sessions := view_sessions d @ [s]\<rparr>, s)));
                  view_session' =
                    (case duration video of
                       None \<Rightarrow> view_session
                     | Some dur \<Rightarrow>
                        if dur \<noteq> 0 then update_progress view_session cur dur now
                        else view_session)
              in Inr (d1\<lparr>view_sessions :=
                          write_back view_session view_session' (view_sessions d1)\<rparr>,
                      view_session'))))"

text \<open>
  \<open>VideoAnalyticsService.record_video_view\<close>. The view counter is incremented on the
  video row when the video exists.
\<close>

definition record_video_view ::
  "db \<Rightarrow> string \<Rightarrow> string \<Rightarrow> string option \<Rightarrow> string option \<Rightarrow> string option \<Rightarrow> string \<Rightarrow> nat
     \<Rightarrow> error + (db \<times> VideoViewSession)" where
  "record_video_view d video_id sid uid ip ua new_id now =
     (case scalar_one_or_none (select_view_session d video_id sid) of
        Inl e \<Rightarrow> Inl e
      | Inr (Some s) \<Rightarrow> Inr (d, s)
      | Inr None \<Rightarrow>
         (let s = new_view_session new_id video_id sid uid ip ua now;
              d1 = d\<lparr>view_sessions := view_sessions d @ [s]\<rparr>;
              d2 = (case get_video_by_id d1 video_id of
                      None \<Rightarrow> d1
                    | Some video \<Rightarrow>
                       d1\<lparr>videos := write_back video
                                      (video\<lparr>view_count := view_count video + 1\<rparr>)
                                      (videos d1)\<rparr>)
          in Inr (d2, s)))"

section \<open>Auxiliary definitions for the progress tracker\<close>

text \<open>
  The formula of the specification for the completion percentage, in its own words:
  \<open>clamp(current_time / video.duration * 100, 0, 100)\<close>.
\<close>

definition spec_completion_percentage :: "rat \<Rightarrow> rat \<Rightarrow> rat" where
  "spec_completion_percentage cur dur = max 0 (min 100 (cur / dur * 100))"

text \<open>
  A sequence of \<open>update_video_progress\<close> calls, each with its arguments, the uuid it
  draws and its clock reading; a call that raises leaves the database as it was.
\<close>

type_synonym progress_call = "string \<times> string \<times> rat \<times> string option \<times> string \<times> nat"

fun run_progress_calls :: "db \<Rightarrow> progress_call list \<Rightarrow> db" where
  "run_progress_calls d [] = d"
| "run_progress_calls d ((video_id, sid, cur, uid, new_id, now) # calls) =
     (case update_video_progress d video_id sid cur uid new_id now of
        Inl e \<Rightarrow> run_progress_calls d calls
      | Inr (d', s) \<Rightarrow> run_progress_calls d' calls)"

text \<open>Concrete records used to instantiate the theorems below.\<close>

definition example_video :: Video where
  "example_video =
     \<lparr>v_id = ''v1'', title = ''demo'', filename = ''a.mp4'',
      file_path = Some ''videos/v1/a.mp4'', file_size = 1000, file_type = ''video/mp4'',
      file_extension = ''.mp4'', duration = Some 10, width = Some 640, height = Some 360,
      fps = Some 25, bitrate = None, codec = Some ''unknown'', status = COMPLETED,
      processing_progress = 100, error_message = None, thumbnail_path = None,
      thumbnail_generated = False, view_count = 0, uploaded_at = Some 1,
      processed_at = Some 2\<rparr>"

definition example_db :: db where
  "example_db = \<lparr>videos = [example_video], upload_sessions = [], view_sessions = []\<rparr>"

definition watched_session :: VideoViewSession where
  "watched_session = update_progress (new_view_session ''n0'' ''v1'' ''s1'' None None None 3) 10 10 4"

definition watched_db :: db where
  "watched_db = example_db\<lparr>view_sessions := [watched_session]\<rparr>"

definition unprobed_video :: Video where
  "unprobed_video = example_video\<lparr>v_id := ''v2'', duration := Some 0\<rparr>"

definition unprobed_db :: db where
  "unprobed_db = \<lparr>videos = [example_video, unprobed_video], upload_sessions = [],
     view_sessions = [watched_session]\<rparr>"

section \<open>Processing pipeline\<close>

text \<open>
  The object store and the media inspector (OpenCV) are outside the program. What they
  answer during one run is a parameter of the run: \<open>fetch\<close> is the outcome of
  \<open>get_file_content\<close> (the text of the exception raised, or the bytes), the \<open>cap_\<close>
  fields are what \<open>cv2.VideoCapture\<close> reports for the file, \<open>frame_read\<close> tells
  whether reading the middle frame gave a frame, \<open>thumb_stored\<close> whether writing
  and uploading the thumbnail went through, and \<open>thumbnails_enabled\<close> is
  \<open>settings.ENABLE_VIDEO_THUMBNAILS\<close>. Failures of the local temporary files are not
  modelled. Every operation returns the list of the database states it committed, in
  order, and its result; one clock reading \<open>now\<close> serves a whole run.
\<close>

record media_env =
  fetch :: "string + bytes"
  cap_opened :: bool
  cap_frame_count :: int
  cap_fps :: rat
  cap_width :: int
  cap_height :: int
  frame_read :: bool
  thumb_stored :: bool
  thumbnails_enabled :: bool

record metadata =
  md_frame_count :: int
  md_fps :: rat
  md_width :: int
  md_height :: int
  md_duration :: rat

text \<open>\<open>extract_video_metadata\<close> (celery_worker/tasks.py).\<close>

definition extract_video_metadata :: "media_env \<Rightarrow> string + metadata" where
  "extract_video_metadata env =
     (if \<not> cap_opened env
      then Inl ''Failed to extract metadata: Could not open video file''
      else Inr \<lparr>md_frame_count = cap_frame_count env, md_fps = cap_fps env,
                md_width = cap_width env, md_height = cap_height env,
                md_duration = (if cap_fps env > 0
                               then of_int (cap_frame_count env) / cap_fps env else 0)\<rparr>)"

text \<open>
  \<open>generate_video_thumbnail_sync\<close> (celery_worker/tasks.py): the path of the uploaded
  thumbnail, or None when the file does not open, no frame is read, or anything raises.
\<close>

definition generate_video_thumbnail_sync :: "media_env \<Rightarrow> string \<Rightarrow> string option" where
  "generate_video_thumbnail_sync env video_id =
     (if \<not> cap_opened env then None
      else if frame_read env then
        (if thumb_stored env
         then Some (''thumbnails/'' @ video_id @ ''/'' @ ''thumbnail_'' @ video_id @ ''.jpg'')
         else None)
      else None)"

definition put_video :: "db \<Rightarrow> Video \<Rightarrow> Video \<Rightarrow> db" where
  "put_video d old new = d\<lparr>videos := write_back old new (videos d)\<rparr>"

text \<open>
  The \<open>except Exception\<close> handler of \<open>process_video_upload\<close>: the video is queried
  again and, when found, marked FAILED with the message; the task raises.
\<close>

definition mark_failed :: "db \<Rightarrow> db list \<Rightarrow> string \<Rightarrow> string \<Rightarrow> db list \<times> (error + 'a)" where
  "mark_failed d commits video_id e =
     (case get_video_by_id d video_id of
        None \<Rightarrow> (commits, Inl (Exception (''Video processing failed: '' @ e)))
      | Some video \<Rightarrow>
         (commits @ [put_video d video (video\<lparr>status := FAILED, error_message := Some e\<rparr>)],
          Inl (Exception (''Video processing failed: '' @ e))))"

record process_result =
  pr_video_id :: string
  pr_duration :: "rat option"
  pr_resolution :: "string option"
  pr_thumbnail_generated :: bool
  pr_processed_at :: "nat option"

text \<open>\<open>f"{video.width}x{video.height}" if video.width and video.height else None\<close>\<close>

definition resolution_of :: "Video \<Rightarrow> string option" where
  "resolution_of v =
     (case (width v, height v) of
        (Some w, Some h) \<Rightarrow>
          if w \<noteq> 0 \<and> h \<noteq> 0 then Some (str_int w @ ''x'' @ str_int h) else None
      | _ \<Rightarrow> None)"

text \<open>The Celery task \<open>process_video_upload(video_id, file_path)\<close>.\<close>

definition process_video_upload ::
  "db \<Rightarrow> string \<Rightarrow> string \<Rightarrow> media_env \<Rightarrow> nat \<Rightarrow> db list \<times> (error + process_result)" where
  "process_video_upload d video_id path env now =
     (case get_video_by_id d video_id of
        None \<Rightarrow> mark_failed d [] video_id (''Video '' @ video_id @ '' not found'')
      | Some video \<Rightarrow>
         (let video1 = video\<lparr>status := PROCESSING, processing_progress := 10\<rparr>;
              d1 = put_video d video video1
          in case fetch env of
               Inl e \<Rightarrow> mark_failed d1 [d1] video_id e
             | Inr video_content \<Rightarrow>
                (case extract_video_metadata env of
                   Inl e \<Rightarrow> mark_failed d1 [d1] video_id e
                 | Inr md \<Rightarrow>
                    (let video2 = video1\<lparr>duration := Some (md_duration md),
                                         width := Some (md_width md),
                                         height := Some (md_height md),
                                         fps := Some (md_fps md),
                                         bitrate := None,
                                         codec := Some ''unknown'',
                                         processing_progress := 50\<rparr>;
                         d2 = put_video d1 video1 video2;
                         video3 =
                           (if thumbnails_enabled env then
                              (case generate_video_thumbnail_sync env video_id of
                                 Some p \<Rightarrow> video2\<lparr>thumbnail_path := Some p,
                                                  thumbnail_generated := True\<rparr>
                               | None \<Rightarrow> video2)\<lparr>processing_progress := 80\<rparr>
                            else video2);
                         d3 = put_video d2 video2 video3;
                         commits3 = (if thumbnails_enabled env then [d1, d2, d3] else [d1, d2]);
                         video4 = video3\<lparr>status := COMPLETED, processed_at := Some now,
                                         processing_progress := 100\<rparr>;
                         d4 = put_video d3 video3 video4
                     in (commits3 @ [d4],
                         Inr \<lparr>pr_video_id = video_id, pr_duration = duration video4,
                              pr_resolution = resolution_of video4,
                              pr_thumbnail_generated = thumbnail_generated video4,
                              pr_processed_at = processed_at video4\<rparr>)))))"

text \<open>
  The Celery task \<open>generate_video_thumbnail_task(video_id)\<close>, the thumbnail generation
  that runs on its own. It raises on every failure and commits only on success.
\<close>

definition generate_video_thumbnail_task ::
  "db \<Rightarrow> string \<Rightarrow> media_env \<Rightarrow> db list \<times> (error + string)" where
  "generate_video_thumbnail_task d video_id env =
     (case get_video_by_id d video_id of
        None \<Rightarrow> ([], Inl (Exception (''Video '' @ video_id @ '' not found'')))
      | Some video \<Rightarrow>
         (case file_path video of
            None \<Rightarrow> ([], Inl (Exception ''Video file path not found''))
          | Some path \<Rightarrow>
             if path = [] then ([], Inl (Exception ''Video file path not found''))
             else
               (case fetch env of
                  Inl e \<Rightarrow> ([], Inl (Exception e))
                | Inr video_content \<Rightarrow>
                   (case generate_video_thumbnail_sync env video_id of
                      Some p \<Rightarrow>
                        ([put_video d video
                            (video\<lparr>thumbnail_path := Some p, thumbnail_generated := True\<rparr>)],
                         Inr p)
                    | None \<Rightarrow> ([], Inl (Exception ''Failed to generate thumbnail''))))))"

text \<open>
  \<open>VideoProcessingWorker.process_video_metadata\<close> (app/workers/video_worker.py); it
  reports a failure in its result instead of raising. The flag is \<open>CV2_AVAILABLE\<close>.
\<close>

datatype worker_result =
    WorkerFailed string
  | WorkerCompleted metadata "rat option" "string option"

definition worker_process_video_metadata ::
  "db \<Rightarrow> string \<Rightarrow> bool \<Rightarrow> media_env \<Rightarrow> db list \<times> worker_result" where
  "worker_process_video_metadata d video_id cv2_available env =
     (if \<not> cv2_available then ([], WorkerFailed ''OpenCV not available'')
      else
        (case get_video_by_id d video_id of
           None \<Rightarrow> ([], WorkerFailed (''Video '' @ video_id @ '' not found''))
         | Some video \<Rightarrow>
            (let video1 = video\<lparr>status := PROCESSING, processing_progress := 20\<rparr>;
                 d1 = put_video d video video1;
                 failed = (\<lambda>e. ([d1, put_video d1 video1
                                         (video1\<lparr>status := FAILED, error_message := Some e\<rparr>)],
                                WorkerFailed e))
             in case fetch env of
                  Inl e \<Rightarrow> failed e
                | Inr video_content \<Rightarrow>
                   if \<not> cap_opened env then failed ''Could not open video file''
                   else
                     (let md = \<lparr>md_frame_count = cap_frame_count env, md_fps = cap_fps env,
                                 md_width = cap_width env, md_height = cap_height env,
                                 md_duration = (if cap_fps env > 0
                                                then of_int (cap_frame_count env) / cap_fps env
                                                else 0)\<rparr>;
                          video2 = video1\<lparr>duration := Some (md_duration md),
                                          width := Some (md_width md),
                                          height := Some (md_height md),
                                          fps := Some (md_fps md),
                                          bitrate := None,
                                          codec := Some ''unknown'',
                                          processing_progress := 60\<rparr>
                      in ([d1, put_video d1 video1 video2],
                          WorkerCompleted md (duration video2) (resolution_of video2))))))"

section \<open>Ingestion manager (app/services/video_service.py)\<close>

text \<open>
  The service works on a \<open>Video\<close> object of its session. Between two commits the
  object may carry changes the table does not have yet, so the functions below take both
  the row as last committed (\<open>row\<close>) and the object (\<open>video\<close>); a commit writes the
  object over the row.

  \<open>VideoService.generate_video_thumbnail\<close>: it commits when a thumbnail was stored
  and swallows every exception. The result is the commits and the object afterwards.
\<close>

definition service_generate_video_thumbnail ::
  "db \<Rightarrow> Video \<Rightarrow> Video \<Rightarrow> media_env \<Rightarrow> db list \<times> Video" where
  "service_generate_video_thumbnail d row video env =
     (case fetch env of
        Inl e \<Rightarrow> ([], video)
      | Inr video_content \<Rightarrow>
         if cap_opened env \<and> frame_read env then
           (if thumb_stored env then
              (let video' = video\<lparr>thumbnail_path :=
                                     Some (''thumbnails/'' @ v_id video @ ''/'' @
                                           ''thumbnail_'' @ v_id video @ ''.jpg''),
                                   thumbnail_generated := True\<rparr>
               in ([put_video d row video'], video'))
            else ([], video))
         else ([], video))"

text \<open>
  \<open>VideoService._process_video_metadata\<close>, which \<open>upload_video_file\<close> awaits before
  it returns: it ends with the video COMPLETED, or FAILED when anything raised.
\<close>

definition service_process_video_metadata ::
  "db \<Rightarrow> Video \<Rightarrow> Video \<Rightarrow> media_env \<Rightarrow> nat \<Rightarrow> db list" where
  "service_process_video_metadata d row video env now =
     (case fetch env of
        Inl e \<Rightarrow>
          [put_video d row
             (video\<lparr>status := FAILED, error_message := Some (''Processing failed: '' @ e)\<rparr>)]
      | Inr video_content \<Rightarrow>
         (let video1 = video\<lparr>duration := Some (if cap_fps env > 0
                                                  then of_int (cap_frame_count env) / cap_fps env
                                                  else 0),
                              width := Some (cap_width env),
                              height := Some (cap_height env),
                              fps := Some (cap_fps env)\<rparr>;
              (commits, video2) =
                 (if thumbnails_enabled env
                  then service_generate_video_thumbnail d row video1 env
                  else ([], video1));
              (d', row') = (if commits = [] then (d, row) else (last commits, video2));
              video3 = video2\<lparr>status := COMPLETED, processed_at := Some now,
                              processing_progress := 100\<rparr>
          in commits @ [put_video d' row' video3]))"

text \<open>
  \<open>VideoService.upload_video_file(video, file, chunk_size)\<close>. \<open>file_read\<close> is the
  outcome of \<open>file.read()\<close>, \<open>store_error\<close> the text of the exception raised by the
  upload to the object store, if any; \<open>new_id\<close> and \<open>new_token\<close> are the two uuids.
\<close>

definition upload_video_file ::
  "db \<Rightarrow> Video \<Rightarrow> (string + bytes) \<Rightarrow> string option \<Rightarrow> media_env \<Rightarrow> int \<Rightarrow> string \<Rightarrow> string
     \<Rightarrow> nat \<Rightarrow> db list \<times> (error + VideoUploadSession)" where
  "upload_video_file d video file_read store_error env chunk new_id new_token now =
     (let upload_session =
            \<lparr>us_id = new_id, us_video_id = v_id video, session_token = new_token,
             chunk_size = chunk, bytes_uploaded = 0, upload_progress = 0,
             us_status = UPLOADING, us_error_message = None, started_at = Some now,
             completed_at = None\<rparr>;
          d1 = d\<lparr>upload_sessions := upload_sessions d @ [upload_session]\<rparr>;
          video1 = video\<lparr>status := UPLOADING\<rparr>;
          d2 = put_video d1 video video1;
          failed = (\<lambda>session e.
             ([d1, d2,
               (put_video d2 video1 (video1\<lparr>status := FAILED, error_message := Some e\<rparr>))
                 \<lparr>upload_sessions :=
                    write_back upload_session
                      (session\<lparr>us_status := FAILED, us_error_message := Some e\<rparr>)
                      (upload_sessions d2)\<rparr>],
              Inl (HTTPException 500 (''Upload failed: '' @ e))))
      in case file_read of
           Inl e \<Rightarrow> failed upload_session e
         | Inr file_content \<Rightarrow>
            (let upload_session1 =
                   upload_session\<lparr>bytes_uploaded := int (length file_content)\<rparr>
             in case store_error of
                  Some e \<Rightarrow> failed upload_session1 e
                | None \<Rightarrow>
                   (let upload_session2 =
                          upload_session1\<lparr>us_status := COMPLETED, upload_progress := 100,
                                           completed_at := Some now\<rparr>;
                        video2 = video1\<lparr>status := PROCESSING,
                                        file_path := Some (''videos/'' @ v_id video @ ''/'' @
                                                           filename video),
                                        uploaded_at := Some now\<rparr>;
                        d3 = (put_video d2 video1 video2)
                               \<lparr>upload_sessions :=
                                  write_back upload_session upload_session2
                                    (upload_sessions d2)\<rparr>
                    in ([d1, d2, d3] @ service_process_video_metadata d3 video2 video2 env now,
                        Inr upload_session2))))"

text \<open>
  \<open>VideoService.delete_video(video_id)\<close>. The object store answers False for a
  storage error; \<open>delete_error\<close> is the text of any other exception it raises.
\<close>

definition delete_video :: "db \<Rightarrow> string \<Rightarrow> string option \<Rightarrow> db list \<times> (error + bool)" where
  "delete_video d video_id delete_error =
     (case get_video_by_id d video_id of
        None \<Rightarrow> ([], Inl (HTTPException 404 ''Video not found''))
      | Some video \<Rightarrow>
         (case delete_error of
            Some e \<Rightarrow> ([], Inl (HTTPException 500 (''Failed to delete video: '' @ e)))
          | None \<Rightarrow> ([put_video d video (video\<lparr>status := DELETED\<rparr>)], Inr True)))"

text \<open>The status of a video in each of a list of committed states.\<close>

definition status_trace :: "string \<Rightarrow> db list \<Rightarrow> VideoStatus option list" where
  "status_trace video_id commits =
     map (\<lambda>d. map_option status (get_video_by_id d video_id)) commits"

definition active_sessions :: "db \<Rightarrow> string \<Rightarrow> VideoUploadSession list" where
  "active_sessions d video_id =
     filter (\<lambda>s. us_video_id s = video_id \<and> us_is_active s) (upload_sessions d)"

text \<open>Further concrete records used to instantiate the theorems below.\<close>

definition good_env :: media_env where
  "good_env = \<lparr>fetch = Inr [1, 2, 3], cap_opened = True, cap_frame_count = 250,
     cap_fps = 20, cap_width = 640, cap_height = 360, frame_read = True,
     thumb_stored = True, thumbnails_enabled = True\<rparr>"

definition fresh_video :: Video where
  "fresh_video =
     \<lparr>v_id = ''v3'', title = ''demo'', filename = ''b.mp4'',
      file_path = Some ''videos/v3/b.mp4'', file_size = 500000, file_type = ''video/mp4'',
      file_extension = ''.mp4'', duration = None, width = None, height = None,
      fps = None, bitrate = None, codec = None, status = PENDING,
      processing_progress = 0, error_message = None, thumbnail_path = None,
      thumbnail_generated = False, view_count = 0, uploaded_at = None,
      processed_at = None\<rparr>"

definition fresh_db :: db where
  "fresh_db = \<lparr>videos = [fresh_video], upload_sessions = [], view_sessions = []\<rparr>"

definition uploading_session :: VideoUploadSession where
  "uploading_session =
     \<lparr>us_id = ''u0'', us_video_id = ''v3'', session_token = ''t0'', chunk_size = 8192,
      bytes_uploaded = 0, upload_progress = 0, us_status = UPLOADING,
      us_error_message = None, started_at = Some 1, completed_at = None\<rparr>"

definition busy_video :: Video where
  "busy_video = fresh_video\<lparr>status := UPLOADING\<rparr>"

definition busy_db :: db where
  "busy_db = \<lparr>videos = [busy_video], upload_sessions = [uploading_session],
     view_sessions = []\<rparr>"

text \<open>
  The state after a run that started in \<open>d\<close> (the last commit, or \<open>d\<close> when nothing
  was committed), and the \<open>processing_progress\<close> of a video in each committed state.
\<close>

definition final_db :: "db \<Rightarrow> db list \<Rightarrow> db" where
  "final_db d commits = last (d # commits)"

definition progress_trace :: "string \<Rightarrow> db list \<Rightarrow> int option list" where
  "progress_trace video_id commits =
     map (\<lambda>d. map_option processing_progress (get_video_by_id d video_id)) commits"

section \<open>Streaming delivery (app/api/videos.py)\<close>

text \<open>
  What \<open>stream_video\<close> reads of the request, and the response it builds. The headers
  are a Python dict: an association list in insertion order, where an update of a key
  keeps the key in its place. For the \<open>StreamingResponse\<close> the body is the
  concatenation of the chunks the generator yields.
\<close>

record request =
  x_session_id :: "string option"
  range_hdr :: "string option"
  req_user_agent :: "string option"
  client_host :: string

record response =
  status_code :: nat
  headers :: "(string \<times> string) list"
  body :: bytes
  media_type :: string

text \<open>\<open>settings.STREAMING_CHUNK_SIZE\<close> (app/core/config.py).\<close>

definition STREAMING_CHUNK_SIZE :: nat where
  "STREAMING_CHUNK_SIZE = 1048576"

text \<open>
  The generator \<open>generate()\<close>: \<open>content[i : i + chunk_size]\<close> for \<open>i\<close> in
  \<open>range(0, len(content), chunk_size)\<close>.
\<close>

function generate :: "bytes \<Rightarrow> nat \<Rightarrow> bytes list" where
  "generate content chunk =
     (if chunk = 0 \<or> content = [] then []
      else take chunk content # generate (drop chunk content) chunk)"
  by pat_completeness auto
termination
  by (relation "measure (\<lambda>(content, chunk). length content)") auto

declare generate.simps [simp del]

text \<open>
  The body of the \<open>try\<close> block of \<open>stream_video\<close> once the content is there: the
  headers, the range handling and the response. What it raises is caught by the
  \<open>except Exception\<close> of \<open>stream_video\<close> below.
\<close>

definition stream_response :: "bytes \<Rightarrow> string \<Rightarrow> string option \<Rightarrow> py_error + response" where
  "stream_response content ftype range_header =
     (let hdrs = [(''Content-Type'', ftype),
                  (''Content-Length'', str_int (int (length content))),
                  (''Accept-Ranges'', ''bytes''),
                  (''Cache-Control'', ''no-cache, no-store, must-revalidate''),
                  (''Pragma'', ''no-cache''),
                  (''Expires'', ''0'')];
          full = Inr \<lparr>status_code = 200, headers = hdrs,
                      body = concat (generate content STREAMING_CHUNK_SIZE),
                      media_type = ftype\<rparr>
      in case range_header of
           None \<Rightarrow> full
         | Some h \<Rightarrow>
            if h = [] then full
            else
              (let range_match = py_split CHR ''-'' (py_replace ''bytes='' [] h)
               in case (if hd range_match \<noteq> [] then py_int (hd range_match) else Inr 0) of
                    Inl e \<Rightarrow> Inl e
                  | Inr start \<Rightarrow>
                     (case py_index range_match 1 of
                        Inl e \<Rightarrow> Inl e
                      | Inr end_text \<Rightarrow>
                         (case (if end_text \<noteq> [] then py_int end_text
                                else Inr (int (length content) - 1)) of
                            Inl e \<Rightarrow> Inl e
                          | Inr end \<Rightarrow>
                             (let partial_content = py_slice content start (end + 1)
                              in Inr \<lparr>status_code = 206,
                                      headers =
                                        AList.update ''Content-Length''
                                          (str_int (int (length partial_content)))
                                          (AList.update ''Content-Range''
                                             (''bytes '' @ str_int start @ ''-'' @ str_int end @
                                              ''/'' @ str_int (int (length content)))
                                             hdrs),
                                      body = partial_content,
                                      media_type = ftype\<rparr>)))))"

text \<open>
  \<open>stream_video(video_id, request)\<close>. \<open>content_result\<close> is the outcome of
  \<open>stream_video_content\<close> (the text of the exception, or the bytes of the object);
  \<open>new_uuid\<close> is the uuid drawn for a request without \<open>X-Session-ID\<close>, \<open>new_id\<close>
  the one for a new view session. The view is recorded before the content is read, so the
  database is returned with an error as well.
\<close>

definition stream_video ::
  "db \<Rightarrow> string \<Rightarrow> request \<Rightarrow> (string + bytes) \<Rightarrow> string \<Rightarrow> string \<Rightarrow> nat
     \<Rightarrow> db \<times> (error + response)" where
  "stream_video d video_id req content_result new_uuid new_id now =
     (case get_video_by_id d video_id of
        None \<Rightarrow> (d, Inl (HTTPException 404 ''Video not found or not ready''))
      | Some video \<Rightarrow>
         if status video \<noteq> COMPLETED
         then (d, Inl (HTTPException 404 ''Video not found or not ready''))
         else
           (let sid = (case x_session_id req of Some s \<Rightarrow> s | None \<Rightarrow> new_uuid)
            in case record_video_view d video_id sid None (Some (client_host req))
                      (req_user_agent req) new_id now of
                 Inl e \<Rightarrow> (d, Inl e)
               | Inr (d1, view_session) \<Rightarrow>
                  (case content_result of
                     Inl e \<Rightarrow> (d1, Inl (HTTPException 500 (''Streaming failed: '' @ e)))
                   | Inr content \<Rightarrow>
                      (case stream_response content (file_type video) (range_hdr req) of
                         Inl e \<Rightarrow>
                           (d1, Inl (HTTPException 500
                                       (''Streaming failed: '' @ str_py_error e)))
                       | Inr resp \<Rightarrow> (d1, Inr resp)))))"

text \<open>
  A Range header of the form \<open>bytes=start-end\<close>, where either number may be left
  out, and the stored object and the requests of the examples.
\<close>

definition range_text :: "nat option \<Rightarrow> nat option \<Rightarrow> string" where
  "range_text a b =
     ''bytes='' @ (case a of None \<Rightarrow> [] | Some m \<Rightarrow> str_nat m) @ ''-'' @
     (case b of None \<Rightarrow> [] | Some n \<Rightarrow> str_nat n)"

definition kilobyte :: bytes where
  "kilobyte = replicate 1000 7"

definition range_request :: "string option \<Rightarrow> request" where
  "range_request r = \<lparr>x_session_id = Some ''s1'', range_hdr = r, req_user_agent = None,
     client_host = ''10.0.0.1''\<rparr>"

text \<open>
  The bounds the range handling works with for a header \<open>bytes=start-end\<close>: the
  start that was given or 0, the end that was given or the last index of the object.
\<close>

definition range_start :: "nat option \<Rightarrow> int" where
  "range_start a = (case a of None \<Rightarrow> 0 | Some m \<Rightarrow> int m)"

definition range_end :: "nat option \<Rightarrow> bytes \<Rightarrow> int" where
  "range_end b content = (case b of None \<Rightarrow> int (length content) - 1 | Some n \<Rightarrow> int n)"

text \<open>The numbers of a Range header stay within the digit limit of \<open>int\<close>.\<close>

definition within_digit_limit :: "nat option \<Rightarrow> bool" where
  "within_digit_limit a =
     (case a of None \<Rightarrow> True | Some m \<Rightarrow> length (str_nat m) \<le> MAX_STR_DIGITS)"

section \<open>Lemmas on the record store\<close>

lemma find_write_back:
  "find P rows = Some x \<Longrightarrow> P y \<Longrightarrow> find P (write_back x y rows) = Some y"
  by (induction rows) (auto simp: write_back_def)

lemma write_back_same [simp]: "write_back x x rows = rows"
  by (induction rows) (auto simp: write_back_def)

lemma scalar_one_or_none_cases:
  "scalar_one_or_none xs = Inr None \<longleftrightarrow> xs = []"
  "scalar_one_or_none xs = Inr (Some x) \<longleftrightarrow> xs = [x]"
  by (cases xs rule: scalar_one_or_none.cases; auto)+

lemma filter_write_back:
  "P s = P s' \<Longrightarrow> filter P (write_back s s' rows) = write_back s s' (filter P rows)"
  by (induction rows) (auto simp: write_back_def)

lemma update_progress_key [simp]:
  "vs_video_id (update_progress s c dur n) = vs_video_id s"
  "session_id (update_progress s c dur n) = session_id s"
  by (simp_all add: update_progress_def Let_def)

lemma update_progress_completed: "is_completed s \<Longrightarrow> is_completed (update_progress s c dur n)"
  by (simp add: update_progress_def Let_def)

lemma step_completed:
  assumes sel: "select_view_session d vid sid = [s]" and c: "is_completed s"
    and r: "update_video_progress d vid2 sid2 cur uid nid now = Inr (d', r)"
  shows "\<exists>s'. select_view_session d' vid sid = [s'] \<and> is_completed s'"
proof -
  let ?P = "\<lambda>x. vs_video_id x = vid \<and> session_id x = sid"
  from r obtain video found where
    v: "get_video_by_id d vid2 = Some video" and
    f: "scalar_one_or_none (select_view_session d vid2 sid2) = Inr found"
    by (auto simp: update_video_progress_def split: option.splits sum.splits)
  define upd where "upd x = (case duration video of None \<Rightarrow> x
      | Some dur \<Rightarrow> if dur \<noteq> 0 then update_progress x cur dur now else x)" for x
  have upd_key: "?P (upd x) = ?P x" for x
    by (simp add: upd_def split: option.splits)
  have upd_c: "is_completed x \<Longrightarrow> is_completed (upd x)" for x
    by (simp add: upd_def update_progress_completed split: option.splits)
  show ?thesis
  proof (cases found)
    case None
    then have nil: "select_view_session d vid2 sid2 = []"
      using f by (simp add: scalar_one_or_none_cases)
    define n where "n = new_view_session nid vid2 sid2 uid None None now"
    have d': "view_sessions d' = write_back n (upd n) (view_sessions d @ [n])"
      using r v f None by (auto simp: update_video_progress_def upd_def n_def Let_def)
    have nP: "\<not> ?P n"
      using nil sel by (auto simp: n_def new_view_session_def select_view_session_def)
    have "filter ?P (view_sessions d') = write_back n (upd n) (filter ?P (view_sessions d @ [n]))"
      unfolding d' by (rule filter_write_back) (simp add: upd_key)
    also have "\<dots> = write_back n (upd n) [s]"
      using nP sel by (auto simp: select_view_session_def)
    also have "\<dots> = [s]"
      using nP sel by (auto simp: write_back_def select_view_session_def dest: filter_eq_ConsD)
    finally show ?thesis using c by (auto simp: select_view_session_def)
  next
    case (Some x)
    have d': "view_sessions d' = write_back x (upd x) (view_sessions d)"
      using r v f Some by (auto simp: update_video_progress_def upd_def Let_def)
    have "filter ?P (view_sessions d') = write_back x (upd x) (filter ?P (view_sessions d))"
      unfolding d' by (rule filter_write_back) (simp add: upd_key)
    also have "\<dots> = write_back x (upd x) [s]"
      using sel by (simp add: select_view_session_def)
    finally have "filter ?P (view_sessions d') = [if s = x then upd x else s]"
      by (simp add: write_back_def)
    then show ?thesis using c upd_c by (auto simp: select_view_session_def)
  qed
qed

lemmas ex_simps = example_video_def example_db_def watched_session_def watched_db_def
  select_view_session_def new_view_session_def update_progress_def update_video_progress_def
  get_video_by_id_def write_back_def Let_def

section \<open>Progress tracker: theorems\<close>

text \<open>
  Claim C5, as amended. The code computes the percentage without clamping: for a video
  with a known duration, \<open>update_video_progress\<close> stores
  \<open>current_time / duration * 100\<close> when the duration is positive and 0 when it is
  negative. The stored value agrees with the clamped formula of the specification, and
  lies between 0 and 100, when \<open>0 \<le> current_time \<le> duration\<close>.
\<close>

theorem update_progress_percentage_unclamped:
  assumes "get_video_by_id d vid = Some video" and "duration video = Some dur" and "dur \<noteq> 0"
    and "length (select_view_session d vid sid) \<le> 1"
  shows "\<exists>d' s'. update_video_progress d vid sid cur uid nid now = Inr (d', s') \<and>
           completion_percentage s' = (if dur > 0 then cur / dur * 100 else 0) \<and>
           (0 \<le> cur \<and> cur \<le> dur \<longrightarrow>
              completion_percentage s' = spec_completion_percentage cur dur \<and>
              0 \<le> completion_percentage s' \<and> completion_percentage s' \<le> 100)"
proof -
  from assms(4) obtain found where
    f: "scalar_one_or_none (select_view_session d vid sid) = Inr found"
    by (cases "select_view_session d vid sid" rule: scalar_one_or_none.cases) auto
  define x where "x = (case found of Some s \<Rightarrow> s
     | None \<Rightarrow> new_view_session nid vid sid uid None None now)"
  define d1 where "d1 = (case found of Some s \<Rightarrow> d
     | None \<Rightarrow> d\<lparr>view_sessions := view_sessions d @ [x]\<rparr>)"
  have r: "update_video_progress d vid sid cur uid nid now =
      Inr (d1\<lparr>view_sessions := write_back x (update_progress x cur dur now) (view_sessions d1)\<rparr>,
           update_progress x cur dur now)"
    using assms(1-3) f
    by (cases found) (simp_all add: update_video_progress_def x_def d1_def Let_def)
  have pct: "completion_percentage (update_progress x cur dur now) =
      (if dur > 0 then cur / dur * 100 else 0)"
    by (simp add: update_progress_def Let_def)
  let ?p = "if dur > 0 then cur / dur * 100 else 0"
  have bnd: "?p = spec_completion_percentage cur dur \<and> 0 \<le> ?p \<and> ?p \<le> 100"
    if "0 \<le> cur" "cur \<le> dur"
  proof -
    from that assms(3) have pos: "0 < dur" by simp
    with that have "0 \<le> cur / dur * 100" "cur / dur * 100 \<le> 100"
      by (simp_all add: field_simps)
    then show ?thesis using pos unfolding spec_completion_percentage_def by simp
  qed
  show ?thesis
  proof (intro exI conjI impI)
    show "update_video_progress d vid sid cur uid nid now =
      Inr (d1\<lparr>view_sessions := write_back x (update_progress x cur dur now) (view_sessions d1)\<rparr>,
           update_progress x cur dur now)" by (rule r)
    show "completion_percentage (update_progress x cur dur now) = ?p" by (rule pct)
  next
    assume "0 \<le> cur \<and> cur \<le> dur"
    then show "completion_percentage (update_progress x cur dur now) = spec_completion_percentage cur dur"
      using bnd pct by simp
  next
    assume "0 \<le> cur \<and> cur \<le> dur"
    then show "0 \<le> completion_percentage (update_progress x cur dur now)"
      using bnd pct by simp
  next
    assume "0 \<le> cur \<and> cur \<le> dur"
    then show "completion_percentage (update_progress x cur dur now) \<le> 100"
      using bnd pct by simp
  qed
qed

text \<open>An instance: 5 seconds into the 10-second example video is 50 percent.\<close>

theorem update_progress_percentage_unclamped_witness:
  "map_sum id (completion_percentage \<circ> snd)
     (update_video_progress example_db ''v1'' ''s1'' 5 None ''n1'' 3) = Inr 50 \<and>
   spec_completion_percentage 5 10 = 50"
proof -
  have a: "get_video_by_id example_db ''v1'' = Some example_video"
    by (simp add: ex_simps)
  have b: "duration example_video = Some 10" by (simp add: ex_simps)
  have c: "(10::rat) \<noteq> 0" by simp
  have e: "length (select_view_session example_db ''v1'' ''s1'') \<le> 1" by (simp add: ex_simps)
  from update_progress_percentage_unclamped[OF a b c e, of 5 None "''n1''" 3]
  show ?thesis by (auto simp: spec_completion_percentage_def)
qed

text \<open>
  Claim C5 as stated fails: 20 seconds reported on the 10-second example video stores
  200 percent, where the clamped formula gives 100.
\<close>

theorem completion_percentage_clamp_counterexample:
  "map_sum id (completion_percentage \<circ> snd)
     (update_video_progress example_db ''v1'' ''s1'' 20 None ''n1'' 3) = Inr 200 \<and>
   spec_completion_percentage 20 10 = 100"
  by (simp add: ex_simps spec_completion_percentage_def)

text \<open>
  Claim C6. Once a view session has \<open>is_completed\<close> set, it stays set after any
  sequence of \<open>update_video_progress\<close> calls, whatever their videos, sessions and
  playback times: the session is still the only one of its (video, session) pair and is
  still completed.
\<close>

theorem is_completed_irreversible:
  assumes "select_view_session d vid sid = [s]" and "is_completed s"
  shows "\<exists>s'. select_view_session (run_progress_calls d calls) vid sid = [s'] \<and> is_completed s'"
  using assms
proof (induction calls arbitrary: d s)
  case Nil
  then show ?case by simp
next
  case (Cons c calls)
  obtain vid2 sid2 cur uid nid now where c: "c = (vid2, sid2, cur, uid, nid, now)"
    by (cases c) auto
  show ?case
  proof (cases "update_video_progress d vid2 sid2 cur uid nid now")
    case (Inl e)
    then show ?thesis using Cons c by simp
  next
    case (Inr p)
    obtain d' r where p: "p = (d', r)" by (cases p)
    from step_completed[OF Cons.prems Inr[unfolded p]]
    obtain s' where "select_view_session d' vid sid = [s']" "is_completed s'" by blast
    from Cons.IH[OF this] show ?thesis using Inr p c by simp
  qed
qed

text \<open>An instance: a rewind to second 1 on a session that had reached the end.\<close>

theorem is_completed_irreversible_witness:
  "map is_completed (select_view_session watched_db ''v1'' ''s1'') = [True] \<and>
   map is_completed (select_view_session
      (run_progress_calls watched_db [(''v1'', ''s1'', 1, None, ''n1'', 5)]) ''v1'' ''s1'') = [True]"
proof -
  have a: "select_view_session watched_db ''v1'' ''s1'' = [watched_session]"
    by (simp add: ex_simps)
  have b: "is_completed watched_session"
    by (simp add: ex_simps)
  from is_completed_irreversible[OF a b, of "[(''v1'', ''s1'', 1, None, ''n1'', 5)]"]
  show ?thesis using a b by auto
qed

text \<open>
  Claim C4. On an existing video, \<open>record_video_view\<close> for a (video, session) pair
  with no view session creates the session and adds exactly 1 to the view counter, and a
  second and a third call with the same pair return that session and change nothing; for
  a pair that already has a session, the call leaves the database as it is.
\<close>

theorem record_video_view_counts_once:
  assumes "get_video_by_id d vid = Some video"
  shows "(select_view_session d vid sid = [] \<longrightarrow>
            (\<exists>d1 s1. record_video_view d vid sid uid ip ua n1 t1 = Inr (d1, s1) \<and>
               select_view_session d1 vid sid = [s1] \<and>
               map_option view_count (get_video_by_id d1 vid) = Some (view_count video + 1) \<and>
               record_video_view d1 vid sid uid2 ip2 ua2 n2 t2 = Inr (d1, s1) \<and>
               record_video_view d1 vid sid uid3 ip3 ua3 n3 t3 = Inr (d1, s1))) \<and>
         (select_view_session d vid sid \<noteq> [] \<longrightarrow>
            (case record_video_view d vid sid uid ip ua n1 t1 of
               Inl e \<Rightarrow> True
             | Inr (d1, s1) \<Rightarrow> d1 = d \<and> select_view_session d vid sid = [s1]))"
proof (intro conjI impI)
  assume nil: "select_view_session d vid sid = []"
  define s where "s = new_view_session n1 vid sid uid ip ua t1"
  define d1 where "d1 = d\<lparr>view_sessions := view_sessions d @ [s],
     videos := write_back video (video\<lparr>view_count := view_count video + 1\<rparr>) (videos d)\<rparr>"
  have r: "record_video_view d vid sid uid ip ua n1 t1 = Inr (d1, s)"
    using nil assms by (simp add: record_video_view_def s_def d1_def Let_def get_video_by_id_def)
  have sel: "select_view_session d1 vid sid = [s]"
    using nil by (simp add: select_view_session_def d1_def s_def new_view_session_def)
  have vid: "v_id video = vid"
    using assms by (auto simp: get_video_by_id_def dest: find_Some_iff[THEN iffD1])
  have cnt: "get_video_by_id d1 vid = Some (video\<lparr>view_count := view_count video + 1\<rparr>)"
    using assms vid by (simp add: get_video_by_id_def d1_def find_write_back)
  have again: "record_video_view d1 vid sid u i a n t = Inr (d1, s)" for u i a n t
    using sel by (simp add: record_video_view_def)
  show "\<exists>d1 s1. record_video_view d vid sid uid ip ua n1 t1 = Inr (d1, s1) \<and>
               select_view_session d1 vid sid = [s1] \<and>
               map_option view_count (get_video_by_id d1 vid) = Some (view_count video + 1) \<and>
               record_video_view d1 vid sid uid2 ip2 ua2 n2 t2 = Inr (d1, s1) \<and>
               record_video_view d1 vid sid uid3 ip3 ua3 n3 t3 = Inr (d1, s1)"
    using r sel cnt again by simp
next
  assume "select_view_session d vid sid \<noteq> []"
  then show "case record_video_view d vid sid uid ip ua n1 t1 of
               Inl e \<Rightarrow> True
             | Inr (d1, s1) \<Rightarrow> d1 = d \<and> select_view_session d vid sid = [s1]"
    by (cases "select_view_session d vid sid" rule: scalar_one_or_none.cases)
       (simp_all add: record_video_view_def)
qed

text \<open>An instance: three views of the example video in one session count once.\<close>

theorem record_video_view_counts_once_witness:
  "map_option view_count (get_video_by_id example_db ''v1'') = Some 0 \<and>
   (\<exists>d1 s1. record_video_view example_db ''v1'' ''s1'' None None None ''n1'' 3 = Inr (d1, s1) \<and>
      map_option view_count (get_video_by_id d1 ''v1'') = Some 1 \<and>
      record_video_view d1 ''v1'' ''s1'' None None None ''n2'' 4 = Inr (d1, s1) \<and>
      record_video_view d1 ''v1'' ''s1'' None None None ''n3'' 5 = Inr (d1, s1)) \<and>
   (case record_video_view watched_db ''v1'' ''s1'' None None None ''n1'' 6 of
      Inl e \<Rightarrow> False
    | Inr (d1, s1) \<Rightarrow> d1 = watched_db \<and> s1 = watched_session)"
proof -
  have a: "get_video_by_id example_db ''v1'' = Some example_video"
    by (simp add: example_db_def example_video_def get_video_by_id_def)
  have b: "select_view_session example_db ''v1'' ''s1'' = []"
    by (simp add: example_db_def select_view_session_def)
  have c: "view_count example_video = 0" by (simp add: example_video_def)
  have a': "get_video_by_id watched_db ''v1'' = Some example_video"
    by (simp add: watched_db_def example_db_def example_video_def get_video_by_id_def)
  have b': "select_view_session watched_db ''v1'' ''s1'' = [watched_session]"
    by (simp add: ex_simps)
  from b' have r': "record_video_view watched_db ''v1'' ''s1'' None None None ''n1'' 6 =
      Inr (watched_db, watched_session)"
    by (simp add: record_video_view_def)
  have first: "\<exists>d1 s1. record_video_view example_db ''v1'' ''s1'' None None None ''n1'' 3 = Inr (d1, s1) \<and>
      map_option view_count (get_video_by_id d1 ''v1'') = Some 1 \<and>
      record_video_view d1 ''v1'' ''s1'' None None None ''n2'' 4 = Inr (d1, s1) \<and>
      record_video_view d1 ''v1'' ''s1'' None None None ''n3'' 5 = Inr (d1, s1)"
    using record_video_view_counts_once[OF a, of "''s1''" None None None "''n1''" 3
      None None None "''n2''" 4 None None None "''n3''" 5] b c
    by (simp del: map_option_eq_Some) blast
  have second: "case record_video_view watched_db ''v1'' ''s1'' None None None ''n1'' 6 of
      Inl e \<Rightarrow> False
    | Inr (d1, s1) \<Rightarrow> d1 = watched_db \<and> s1 = watched_session"
    using record_video_view_counts_once[OF a', of "''s1''" None None None "''n1''" 6] r'
    by simp
  show ?thesis using a c first second by simp
qed

text \<open>
  Claim C10. On an existing video whose duration is unset or zero,
  \<open>update_video_progress\<close> returns the session of the pair and discards the playback
  time: an existing session and the database are returned unchanged, and an absent one
  is created with the column defaults (\<open>current_time = 0\<close>, percentage 0, not
  completed).
\<close>

theorem update_progress_unknown_duration:
  assumes "get_video_by_id d vid = Some video" and "\<not> duration_known video"
  shows "(select_view_session d vid sid = [s] \<longrightarrow>
            update_video_progress d vid sid cur uid nid now = Inr (d, s)) \<and>
         (select_view_session d vid sid = [] \<longrightarrow>
            update_video_progress d vid sid cur uid nid now =
              Inr (d\<lparr>view_sessions :=
                        view_sessions d @ [new_view_session nid vid sid uid None None now]\<rparr>,
                   new_view_session nid vid sid uid None None now) \<and>
            current_time (new_view_session nid vid sid uid None None now) = 0 \<and>
            completion_percentage (new_view_session nid vid sid uid None None now) = 0 \<and>
            \<not> is_completed (new_view_session nid vid sid uid None None now))"
  using assms
  by (auto simp: update_video_progress_def duration_known_def Let_def
      new_view_session_def split: option.splits)

text \<open>An instance: a progress report of 7 seconds on a video of duration 0.\<close>

theorem update_progress_unknown_duration_witness:
  "\<not> duration_known unprobed_video \<and>
   update_video_progress unprobed_db ''v2'' ''s9'' 7 None ''n1'' 8 =
     Inr (unprobed_db\<lparr>view_sessions :=
            [watched_session, new_view_session ''n1'' ''v2'' ''s9'' None None None 8]\<rparr>,
          new_view_session ''n1'' ''v2'' ''s9'' None None None 8) \<and>
   current_time (new_view_session ''n1'' ''v2'' ''s9'' None None None 8) = 0"
proof -
  have a: "get_video_by_id unprobed_db ''v2'' = Some unprobed_video"
    by (simp add: unprobed_db_def unprobed_video_def example_video_def get_video_by_id_def)
  have b: "\<not> duration_known unprobed_video"
    by (simp add: duration_known_def unprobed_video_def)
  have c: "select_view_session unprobed_db ''v2'' ''s9'' = []"
    by (simp add: unprobed_db_def ex_simps)
  from update_progress_unknown_duration[OF a b, of "''s9''" undefined 7 None "''n1''" 8]
  show ?thesis using b c by (simp add: unprobed_db_def)
qed

section \<open>Processing pipeline and ingestion: theorems\<close>

lemma get_put_video:
  "get_video_by_id d vid = Some old \<Longrightarrow> v_id new = vid \<Longrightarrow>
   get_video_by_id (put_video d old new) vid = Some new"
  by (simp add: get_video_by_id_def put_video_def find_write_back)

lemma get_video_id: "get_video_by_id d vid = Some v \<Longrightarrow> v_id v = vid"
  by (auto simp: get_video_by_id_def find_Some_iff)

lemma map_write_back:
  "f new = f old \<Longrightarrow> map f (write_back old new rows) = map f rows"
  by (induction rows) (auto simp: write_back_def)

lemma put_video_other [simp]:
  "upload_sessions (put_video d old new) = upload_sessions d"
  "view_sessions (put_video d old new) = view_sessions d"
  by (simp_all add: put_video_def)

lemma get_video_sessions [simp]:
  "get_video_by_id (d\<lparr>upload_sessions := us\<rparr>) vid = get_video_by_id d vid"
  "get_video_by_id (d\<lparr>view_sessions := vs\<rparr>) vid = get_video_by_id d vid"
  by (simp_all add: get_video_by_id_def)

lemmas pipe_simps = example_video_def example_db_def fresh_video_def fresh_db_def good_env_def
  busy_db_def busy_video_def uploading_session_def
  get_video_by_id_def put_video_def write_back_def Let_def
  extract_video_metadata_def generate_video_thumbnail_sync_def

lemma progress_trace_simps [simp]:
  "progress_trace vid [] = []"
  "progress_trace vid (d # ds) =
     map_option processing_progress (get_video_by_id d vid) # progress_trace vid ds"
  by (simp_all add: progress_trace_def)

lemma status_trace_simps [simp]:
  "status_trace vid [] = []"
  "status_trace vid (d # ds) = map_option status (get_video_by_id d vid) # status_trace vid ds"
  by (simp_all add: status_trace_def)

lemma thumbnail_task_cases:
  "(\<exists>e. generate_video_thumbnail_task d vid env = ([], Inl e)) \<or>
   (\<exists>video p. get_video_by_id d vid = Some video \<and>
      generate_video_thumbnail_task d vid env =
        ([put_video d video (video\<lparr>thumbnail_path := Some p, thumbnail_generated := True\<rparr>)],
         Inr p))"
  by (auto simp: generate_video_thumbnail_task_def split: option.splits sum.splits)

text \<open>
  Claim C9. A run of the standalone thumbnail task \<open>generate_video_thumbnail_task\<close>
  leaves the \<open>status\<close> and the \<open>processing_progress\<close> of every video as they were;
  no column other than \<open>thumbnail_path\<close> and \<open>thumbnail_generated\<close> changes, and no
  session row changes. When the task raises, nothing is written; when it succeeds, the
  video has the returned thumbnail path and the flag set.
\<close>

theorem thumbnail_task_frame:
  "(let d' = final_db d (fst (generate_video_thumbnail_task d vid env)) in
      map status (videos d') = map status (videos d) \<and>
      map processing_progress (videos d') = map processing_progress (videos d) \<and>
      map (\<lambda>v. v\<lparr>thumbnail_path := None, thumbnail_generated := False\<rparr>) (videos d') =
        map (\<lambda>v. v\<lparr>thumbnail_path := None, thumbnail_generated := False\<rparr>) (videos d) \<and>
      upload_sessions d' = upload_sessions d \<and>
      view_sessions d' = view_sessions d \<and>
      (case snd (generate_video_thumbnail_task d vid env) of
         Inl e \<Rightarrow> d' = d
       | Inr p \<Rightarrow> map_option thumbnail_path (get_video_by_id d' vid) = Some (Some p) \<and>
                  map_option thumbnail_generated (get_video_by_id d' vid) = Some True))"
proof -
  let ?t = "generate_video_thumbnail_task d vid env"
  from thumbnail_task_cases[of d vid env] show ?thesis
  proof (elim disjE exE conjE)
    fix e assume "?t = ([], Inl e)"
    then show ?thesis by (simp add: final_db_def)
  next
    fix video p
    assume g: "get_video_by_id d vid = Some video"
      and t: "?t = ([put_video d video
                 (video\<lparr>thumbnail_path := Some p, thumbnail_generated := True\<rparr>)], Inr p)"
    have "get_video_by_id (put_video d video
        (video\<lparr>thumbnail_path := Some p, thumbnail_generated := True\<rparr>)) vid =
        Some (video\<lparr>thumbnail_path := Some p, thumbnail_generated := True\<rparr>)"
      using g by (intro get_put_video) (simp_all add: get_video_id)
    then show ?thesis
      using t by (simp add: final_db_def put_video_def map_write_back)
  qed
qed

text \<open>An instance: the task on the completed example video.\<close>

theorem thumbnail_task_frame_witness:
  "final_db example_db (fst (generate_video_thumbnail_task example_db ''v1'' good_env)) =
     example_db\<lparr>videos := [example_video\<lparr>
        thumbnail_path := Some ''thumbnails/v1/thumbnail_v1.jpg'',
        thumbnail_generated := True\<rparr>]\<rparr> \<and>
   map status (videos (final_db example_db
      (fst (generate_video_thumbnail_task example_db ''v1'' good_env)))) = [COMPLETED] \<and>
   map processing_progress (videos (final_db example_db
      (fst (generate_video_thumbnail_task example_db ''v1'' good_env)))) = [100]"
proof -
  have "final_db example_db (fst (generate_video_thumbnail_task example_db ''v1'' good_env)) =
     example_db\<lparr>videos := [example_video\<lparr>
        thumbnail_path := Some ''thumbnails/v1/thumbnail_v1.jpg'',
        thumbnail_generated := True\<rparr>]\<rparr>"
    by (simp add: generate_video_thumbnail_task_def final_db_def pipe_simps)
  moreover have "map status (videos example_db) = [COMPLETED]"
    "map processing_progress (videos example_db) = [100]"
    by (simp_all add: example_db_def example_video_def)
  ultimately show ?thesis
    using thumbnail_task_frame[of example_db "''v1''" good_env]
    by (simp add: Let_def)
qed

text \<open>
  Claim C7, as amended. When the video exists, its bytes are fetched and the file opens,
  the Celery task \<open>process_video_upload\<close> commits \<open>processing_progress\<close> 10, then
  50 right after the metadata, then 80 (when thumbnails are enabled) and 100; it is
  \<open>VideoProcessingWorker.process_video_metadata\<close> that commits 20 and then 60 after
  the metadata.
\<close>

theorem metadata_commit_progress:
  assumes "get_video_by_id d vid = Some video" and "fetch env = Inr content"
    and "cap_opened env"
  shows "progress_trace vid (fst (process_video_upload d vid path env now)) =
           (if thumbnails_enabled env then [Some 10, Some 50, Some 80, Some 100]
            else [Some 10, Some 50, Some 100]) \<and>
         progress_trace vid (fst (worker_process_video_metadata d vid True env)) =
           [Some 20, Some 60]"
proof -
  have vid: "v_id video = vid" using assms(1) by (rule get_video_id)
  show ?thesis
    using assms vid
    by (simp add: process_video_upload_def worker_process_video_metadata_def
        extract_video_metadata_def Let_def get_put_video split: option.splits)
qed

text \<open>An instance: both runs on the freshly created example video.\<close>

theorem metadata_commit_progress_witness:
  "progress_trace ''v3'' (fst (process_video_upload fresh_db ''v3'' ''videos/v3/b.mp4'' good_env 9)) =
     [Some 10, Some 50, Some 80, Some 100] \<and>
   progress_trace ''v3'' (fst (worker_process_video_metadata fresh_db ''v3'' True good_env)) =
     [Some 20, Some 60]"
proof -
  have a: "get_video_by_id fresh_db ''v3'' = Some fresh_video"
    by (simp add: fresh_db_def fresh_video_def get_video_by_id_def)
  have b: "fetch good_env = Inr [1, 2, 3]" by (simp add: good_env_def)
  have c: "cap_opened good_env" by (simp add: good_env_def)
  have e: "thumbnails_enabled good_env" by (simp add: good_env_def)
  from metadata_commit_progress[OF a b c, of "''videos/v3/b.mp4''" 9] e
  show ?thesis by simp
qed

text \<open>
  Claim C7 as stated fails: in a run of the Celery task the second commit, the one after
  the metadata extraction, has \<open>processing_progress = 50\<close>, not 60.
\<close>

theorem metadata_commit_progress_counterexample:
  "progress_trace ''v3''
     (fst (process_video_upload fresh_db ''v3'' ''videos/v3/b.mp4'' good_env 9)) ! 1 = Some 50 \<and>
   Some (50::int) \<noteq> Some 60"
  by (simp add: process_video_upload_def pipe_simps)

text \<open>
  Claim C3, as amended. The statuses a video goes through, commit by commit, are:
  for the processing job PROCESSING first, whatever the status was before, and then
  FAILED or COMPLETED; for \<open>upload_video_file\<close> the status it had (the commit of the
  new session), UPLOADING, and then FAILED at once when the upload fails, or PROCESSING
  followed by FAILED or COMPLETED from the metadata processing it runs itself; for
  \<open>delete_video\<close> DELETED, from any status, or no commit at all.
\<close>

theorem status_transitions:
  assumes "get_video_by_id d vid = Some video"
  shows "status_trace vid (fst (process_video_upload d vid path env now)) \<in>
           {[Some PROCESSING, Some FAILED],
            [Some PROCESSING, Some PROCESSING, Some COMPLETED],
            [Some PROCESSING, Some PROCESSING, Some PROCESSING, Some COMPLETED]} \<and>
         status_trace vid (fst (upload_video_file d video file_read store_error env chunk
                                  new_id new_token now)) \<in>
           {[Some (status video), Some UPLOADING, Some FAILED],
            [Some (status video), Some UPLOADING, Some PROCESSING, Some FAILED],
            [Some (status video), Some UPLOADING, Some PROCESSING, Some COMPLETED],
            [Some (status video), Some UPLOADING, Some PROCESSING, Some PROCESSING,
             Some COMPLETED]} \<and>
         status_trace vid (fst (delete_video d vid delete_error)) \<in> {[], [Some DELETED]}"
proof (intro conjI)
  have vid: "v_id video = vid" using assms by (rule get_video_id)
  show "status_trace vid (fst (process_video_upload d vid path env now)) \<in>
           {[Some PROCESSING, Some FAILED],
            [Some PROCESSING, Some PROCESSING, Some COMPLETED],
            [Some PROCESSING, Some PROCESSING, Some PROCESSING, Some COMPLETED]}"
    using assms vid
    by (simp add: process_video_upload_def mark_failed_def Let_def get_put_video
        split: option.splits sum.splits)
  show "status_trace vid (fst (delete_video d vid delete_error)) \<in> {[], [Some DELETED]}"
    using assms vid
    by (simp add: delete_video_def get_put_video split: option.splits)
  show "status_trace vid (fst (upload_video_file d video file_read store_error env chunk
                                  new_id new_token now)) \<in>
           {[Some (status video), Some UPLOADING, Some FAILED],
            [Some (status video), Some UPLOADING, Some PROCESSING, Some FAILED],
            [Some (status video), Some UPLOADING, Some PROCESSING, Some COMPLETED],
            [Some (status video), Some UPLOADING, Some PROCESSING, Some PROCESSING,
             Some COMPLETED]}"
    using assms vid
    by (simp add: upload_video_file_def service_process_video_metadata_def
        service_generate_video_thumbnail_def Let_def get_put_video
        split: option.splits sum.splits)
qed

text \<open>An instance: upload, failed processing and deletion of the fresh example video.\<close>

theorem status_transitions_witness:
  "status_trace ''v3'' (fst (upload_video_file fresh_db fresh_video (Inr [1, 2, 3]) None good_env
       8192 ''u1'' ''t1'' 5)) =
     [Some PENDING, Some UPLOADING, Some PROCESSING, Some PROCESSING, Some COMPLETED] \<and>
   status_trace ''v3'' (fst (process_video_upload fresh_db ''v3'' ''videos/v3/b.mp4''
       (good_env\<lparr>cap_opened := False\<rparr>) 9)) = [Some PROCESSING, Some FAILED] \<and>
   status_trace ''v3'' (fst (delete_video fresh_db ''v3'' None)) = [Some DELETED]"
proof -
  have a: "get_video_by_id fresh_db ''v3'' = Some fresh_video"
    by (simp add: fresh_db_def fresh_video_def get_video_by_id_def)
  have 1: "length (status_trace ''v3'' (fst (upload_video_file fresh_db fresh_video
       (Inr [1, 2, 3]) None good_env 8192 ''u1'' ''t1'' 5))) = 5"
    by (simp add: upload_video_file_def service_process_video_metadata_def
        service_generate_video_thumbnail_def pipe_simps)
  have 2: "length (status_trace ''v3'' (fst (process_video_upload fresh_db ''v3''
       ''videos/v3/b.mp4'' (good_env\<lparr>cap_opened := False\<rparr>) 9))) = 2"
    by (simp add: process_video_upload_def mark_failed_def pipe_simps)
  have 3: "length (status_trace ''v3'' (fst (delete_video fresh_db ''v3'' None))) = 1"
    by (simp add: delete_video_def pipe_simps)
  have 4: "status fresh_video = PENDING" by (simp add: fresh_video_def)
  note inst1 = status_transitions[OF a, where path = "''videos/v3/b.mp4''"
        and env = "good_env\<lparr>cap_opened := False\<rparr>" and now = 9 and delete_error = None
        and file_read = "Inr [1, 2, 3]" and store_error = None and chunk = 8192
        and new_id = "''u1''" and new_token = "''t1''"]
  note inst2 = status_transitions[OF a, where path = "''videos/v3/b.mp4''"
        and env = good_env and now = 5 and delete_error = None
        and file_read = "Inr [1, 2, 3]" and store_error = None and chunk = 8192
        and new_id = "''u1''" and new_token = "''t1''"]
  have p: "status_trace ''v3'' (fst (process_video_upload fresh_db ''v3'' ''videos/v3/b.mp4''
       (good_env\<lparr>cap_opened := False\<rparr>) 9)) = [Some PROCESSING, Some FAILED]"
    using inst1[THEN conjunct1] 2 by auto
  have u: "status_trace ''v3'' (fst (upload_video_file fresh_db fresh_video (Inr [1, 2, 3]) None
       good_env 8192 ''u1'' ''t1'' 5)) =
     [Some PENDING, Some UPLOADING, Some PROCESSING, Some PROCESSING, Some COMPLETED]"
    using inst2[THEN conjunct2, THEN conjunct1] 1 4 by auto
  have dl: "status_trace ''v3'' (fst (delete_video fresh_db ''v3'' None)) = [Some DELETED]"
    using inst1[THEN conjunct2, THEN conjunct2] 3 by auto
  from p u dl show ?thesis by simp
qed

text \<open>
  Claim C3 as stated fails: the processing job run on a COMPLETED video first commits
  it as PROCESSING again.
\<close>

theorem completed_video_reprocessed_counterexample:
  "map_option status (get_video_by_id example_db ''v1'') = Some COMPLETED \<and>
   status_trace ''v1'' (fst (process_video_upload example_db ''v1'' ''videos/v1/a.mp4''
       good_env 9)) =
     [Some PROCESSING, Some PROCESSING, Some PROCESSING, Some COMPLETED]"
  by (simp add: process_video_upload_def pipe_simps)

text \<open>
  Claim C2, as amended. \<open>upload_video_file\<close> does not look at the upload sessions the
  video already has: its first commit adds a new session in UPLOADING status, active
  next to every session that was active before, and changes no video. The call fails
  only when reading the file or storing the object fails, with an HTTP 500 error; it
  otherwise returns the new session, COMPLETED.
\<close>

theorem upload_never_conflicts:
  "(let new_session = \<lparr>us_id = new_id, us_video_id = v_id video, session_token = new_token,
                        chunk_size = chunk, bytes_uploaded = 0, upload_progress = 0,
                        us_status = UPLOADING, us_error_message = None,
                        started_at = Some now, completed_at = None\<rparr>;
        run = upload_video_file d video file_read store_error env chunk new_id new_token now
    in upload_sessions (hd (fst run)) = upload_sessions d @ [new_session] \<and>
       videos (hd (fst run)) = videos d \<and>
       active_sessions (hd (fst run)) (v_id video) =
         active_sessions d (v_id video) @ [new_session] \<and>
       length (fst run) \<ge> 3 \<and>
       (\<not> isl (snd run)) = (\<not> isl file_read \<and> store_error = None) \<and>
       (case snd run of
          Inr s \<Rightarrow> us_id s = new_id \<and> us_status s = COMPLETED
        | Inl e \<Rightarrow> (\<exists>m. e = HTTPException 500 (''Upload failed: '' @ m))))"
  by (auto simp: upload_video_file_def Let_def active_sessions_def us_is_active_def
      split: sum.splits option.splits)

text \<open>An instance: the store rejects the object, on the video that is being uploaded.\<close>

theorem upload_never_conflicts_witness:
  "snd (upload_video_file busy_db busy_video (Inr [1, 2, 3]) (Some ''boom'') good_env
          8192 ''u1'' ''t1'' 5) = Inl (HTTPException 500 ''Upload failed: boom'') \<and>
   map us_id (upload_sessions (hd (fst (upload_video_file busy_db busy_video (Inr [1, 2, 3])
          (Some ''boom'') good_env 8192 ''u1'' ''t1'' 5)))) = [''u0'', ''u1'']"
proof -
  have "upload_sessions busy_db = [uploading_session]" by (simp add: busy_db_def)
  moreover have "snd (upload_video_file busy_db busy_video (Inr [1, 2, 3]) (Some ''boom'')
      good_env 8192 ''u1'' ''t1'' 5) = Inl (HTTPException 500 ''Upload failed: boom'')"
    by (simp add: upload_video_file_def Let_def)
  moreover have "us_id uploading_session = ''u0''" by (simp add: uploading_session_def)
  ultimately show ?thesis
    using upload_never_conflicts[where d = busy_db and video = busy_video
        and file_read = "Inr [1, 2, 3]" and store_error = "Some ''boom''" and env = good_env
        and chunk = 8192 and new_id = "''u1''" and new_token = "''t1''" and now = 5]
    by (simp add: Let_def)
qed

text \<open>
  Claim C2 as stated fails: a video with one active session gets a second active session
  committed by a further \<open>upload_video_file\<close> call, which returns that session
  instead of a conflict error.
\<close>

theorem second_active_session_counterexample:
  "map us_id (active_sessions busy_db ''v3'') = [''u0''] \<and>
   map us_id (active_sessions
      (hd (fst (upload_video_file busy_db busy_video (Inr [1, 2, 3]) None good_env
                  8192 ''u1'' ''t1'' 5))) ''v3'') = [''u0'', ''u1''] \<and>
   map_sum id us_id
      (snd (upload_video_file busy_db busy_video (Inr [1, 2, 3]) None good_env
              8192 ''u1'' ''t1'' 5)) = Inr ''u1''"
  by (simp add: upload_video_file_def active_sessions_def us_is_active_def pipe_simps)

section \<open>Streaming delivery: lemmas\<close>

lemma concat_generate: "0 < chunk \<Longrightarrow> concat (generate content chunk) = content"
proof (induction content chunk rule: generate.induct)
  case (1 content chunk)
  show ?case
  proof (cases "content = []")
    case True
    then show ?thesis by (simp add: generate.simps)
  next
    case False
    with 1 show ?thesis
      by (subst generate.simps) simp
  qed
qed

lemma digit_chars: "n < 10 \<Longrightarrow> is_digit (''0123456789'' ! n) \<and> digit_val (''0123456789'' ! n) = n"
proof -
  assume "n < 10"
  then have "n \<in> {0, 1, 2, 3, 4, 5, 6, 7, 8, 9}" by auto
  then show ?thesis by (auto simp: is_digit_def digit_val_def)
qed

lemma str_nat_digits: "str_nat n \<noteq> [] \<and> (\<forall>c \<in> set (str_nat n). is_digit c)"
proof (induction n rule: str_nat.induct)
  case (1 n)
  show ?case
  proof (cases "n < 10")
    case True
    then show ?thesis by (subst (1 2) str_nat.simps) (simp add: digit_chars)
  next
    case False
    then have "n mod 10 < 10" by simp
    with False 1 show ?thesis by (subst (1 2) str_nat.simps) (simp add: digit_chars)
  qed
qed

lemma parse_digits_all:
  "\<forall>c \<in> set ds. is_digit c \<Longrightarrow>
   parse_digits acc ds = Some (foldl (\<lambda>a c. a * 10 + digit_val c) acc ds)"
  by (induction acc ds rule: parse_digits.induct) auto

lemma parse_decimal_all:
  "ds \<noteq> [] \<Longrightarrow> \<forall>c \<in> set ds. is_digit c \<Longrightarrow>
   parse_decimal ds = Some (foldl (\<lambda>a c. a * 10 + digit_val c) 0 ds)"
  by (cases ds) (simp_all add: parse_decimal_def parse_digits_all)

lemma foldl_str_nat: "foldl (\<lambda>a c. a * 10 + digit_val c) 0 (str_nat n) = n"
proof (induction n rule: str_nat.induct)
  case (1 n)
  show ?case
  proof (cases "n < 10")
    case True
    then show ?thesis by (subst str_nat.simps) (simp add: digit_chars)
  next
    case False
    then have "n mod 10 < 10" by simp
    with False 1 show ?thesis by (subst str_nat.simps) (simp add: digit_chars)
  qed
qed

lemma digit_not_special:
  "is_digit c \<Longrightarrow> \<not> py_isspace c \<and> c \<noteq> CHR ''+'' \<and> c \<noteq> CHR ''-'' \<and> c \<noteq> CHR ''b''"
  by (auto simp: is_digit_def py_isspace_def)

lemma py_strip_digits:
  assumes "\<forall>c \<in> set s. is_digit c"
  shows "py_strip s = s"
proof -
  have "dropWhile py_isspace xs = xs" if "\<forall>c \<in> set xs. is_digit c" for xs
    using that by (cases xs) (auto simp: digit_not_special)
  from this[of s] this[of "rev s"] assms show ?thesis by (simp add: py_strip_def)
qed

lemma py_int_str_nat:
  assumes "length (str_nat n) \<le> MAX_STR_DIGITS"
  shows "py_int (str_nat n) = Inr (int n)"
proof -
  from str_nat_digits[of n] obtain c cs where s: "str_nat n = c # cs" and
    d: "\<forall>x \<in> set (c # cs). is_digit x"
    by (cases "str_nat n") auto
  have p: "parse_decimal (c # cs) = Some n"
    using parse_decimal_all[of "c # cs"] d foldl_str_nat[of n] s by simp
  have st: "py_strip (c # cs) = c # cs" using d by (rule py_strip_digits)
  have sg: "c \<noteq> CHR ''+''" "c \<noteq> CHR ''-''" using d digit_not_special[of c] by auto
  have run: "takeWhile (\<lambda>c. is_digit c \<or> c = CHR ''_'') (c # cs) = c # cs"
    using d by (simp add: takeWhile_eq_all_conv)
  have flt: "filter is_digit (c # cs) = c # cs"
    using d by (simp add: filter_id_conv)
  have len: "\<not> length (c # cs) > MAX_STR_DIGITS" using assms s by simp
  show ?thesis
    unfolding py_int_def s Let_def st
    using sg p len by (simp only: list.case if_False split run flt) simp
qed

lemma py_replace_absent:
  "old \<noteq> [] \<Longrightarrow> hd old \<notin> set s \<Longrightarrow> py_replace old new s = s"
proof (induction s)
  case Nil
  then show ?case by (simp add: py_replace.simps)
next
  case (Cons c s)
  have "take (length old) (c # s) \<noteq> old"
  proof
    assume "take (length old) (c # s) = old"
    then have "hd old = c" using Cons.prems(1) by (cases old) auto
    with Cons.prems(2) show False by simp
  qed
  with Cons show ?case by (subst py_replace.simps) simp
qed

lemma py_replace_prefix:
  "old \<noteq> [] \<Longrightarrow> py_replace old new (old @ s) = new @ py_replace old new s"
  by (subst py_replace.simps) simp

lemma py_split_absent: "sep \<notin> set s \<Longrightarrow> py_split sep s = [s]"
  by (induction s) auto

lemma py_split_first:
  "sep \<notin> set xs \<Longrightarrow> py_split sep (xs @ sep # ys) = xs # py_split sep ys"
  by (induction xs) auto

lemma py_split_nonempty: "py_split sep s \<noteq> []"
  by (induction s) (auto split: list.splits)

lemma py_slice_inner:
  "0 \<le> start \<Longrightarrow> start \<le> stop \<Longrightarrow> stop \<le> int (length xs) \<Longrightarrow>
   py_slice xs start stop = take (nat (stop - start)) (drop (nat start) xs) \<and>
   int (length (py_slice xs start stop)) = stop - start"
  by (auto simp: py_slice_def Let_def min_def)

lemma opt_text_digits:
  "\<forall>c \<in> set (case a of None \<Rightarrow> [] | Some m \<Rightarrow> str_nat m). is_digit c"
  using str_nat_digits by (cases a) auto

lemma range_text_split:
  "py_split CHR ''-'' (py_replace ''bytes='' [] (range_text a b)) =
     [case a of None \<Rightarrow> [] | Some m \<Rightarrow> str_nat m, case b of None \<Rightarrow> [] | Some n \<Rightarrow> str_nat n]"
proof -
  let ?sa = "case a of None \<Rightarrow> [] | Some m \<Rightarrow> str_nat m"
  let ?sb = "case b of None \<Rightarrow> [] | Some n \<Rightarrow> str_nat n"
  have da: "\<forall>c \<in> set ?sa. is_digit c" and db: "\<forall>c \<in> set ?sb. is_digit c"
    by (rule opt_text_digits)+
  have nb: "CHR ''b'' \<notin> set (?sa @ CHR ''-'' # ?sb)"
    using da db digit_not_special by auto
  have "py_replace ''bytes='' [] (range_text a b) = py_replace ''bytes='' [] (?sa @ CHR ''-'' # ?sb)"
    unfolding range_text_def using py_replace_prefix[of "''bytes=''" "[]" "?sa @ CHR ''-'' # ?sb"]
    by simp
  also have "\<dots> = ?sa @ CHR ''-'' # ?sb"
    using nb by (intro py_replace_absent) simp_all
  finally have r: "py_replace ''bytes='' [] (range_text a b) = ?sa @ CHR ''-'' # ?sb" .
  have "CHR ''-'' \<notin> set ?sa" "CHR ''-'' \<notin> set ?sb"
    using da db digit_not_special by auto
  then show ?thesis
    unfolding r by (simp add: py_split_first py_split_absent)
qed

lemma opt_text_int:
  "within_digit_limit a \<Longrightarrow>
   (if (case a of None \<Rightarrow> [] | Some m \<Rightarrow> str_nat m) \<noteq> []
    then py_int (case a of None \<Rightarrow> [] | Some m \<Rightarrow> str_nat m) else Inr dflt) =
   Inr (case a of None \<Rightarrow> dflt | Some m \<Rightarrow> int m)"
  using str_nat_digits by (cases a) (simp_all add: py_int_str_nat within_digit_limit_def)

lemma range_text_nonempty: "range_text a b \<noteq> []"
  by (simp add: range_text_def)

lemma stream_response_range:
  assumes "within_digit_limit a" and "within_digit_limit b"
  shows "stream_response content ft (Some (range_text a b)) =
     Inr \<lparr>status_code = 206,
          headers =
            [(''Content-Type'', ft),
             (''Content-Length'',
                str_int (int (length (py_slice content (range_start a) (range_end b content + 1))))),
             (''Accept-Ranges'', ''bytes''),
             (''Cache-Control'', ''no-cache, no-store, must-revalidate''),
             (''Pragma'', ''no-cache''),
             (''Expires'', ''0''),
             (''Content-Range'',
                ''bytes '' @ str_int (range_start a) @ ''-'' @ str_int (range_end b content) @
                ''/'' @ str_int (int (length content)))],
          body = py_slice content (range_start a) (range_end b content + 1),
          media_type = ft\<rparr>"
proof -
  have ne: "str_nat n \<noteq> []" for n using str_nat_digits[of n] by simp
  have i: "py_index [x, y] 1 = Inr y" for x y :: string by (simp add: py_index_def)
  show ?thesis
    using assms
    by (cases a; cases b)
       (simp_all add: stream_response_def Let_def range_text_nonempty range_text_split i ne
          py_int_str_nat range_start_def range_end_def within_digit_limit_def
          del: One_nat_def)
qed


lemma stream_video_ok:
  assumes "get_video_by_id d vid = Some video" and "status video = COMPLETED"
    and "record_video_view d vid (case x_session_id req of Some s \<Rightarrow> s | None \<Rightarrow> u) None
           (Some (client_host req)) (req_user_agent req) n now = Inr (d1, vs)"
  shows "stream_video d vid req (Inr content) u n now =
     (d1, case stream_response content (file_type video) (range_hdr req) of
            Inl e \<Rightarrow> Inl (HTTPException 500 (''Streaming failed: '' @ str_py_error e))
          | Inr resp \<Rightarrow> Inr resp)"
  using assms by (simp add: stream_video_def Let_def split: sum.splits)

lemma kilobyte_length: "length kilobyte = 1000"
  by (simp add: kilobyte_def)

lemma example_texts:
  "range_text (Some 100) (Some 199) = ''bytes=100-199''"
  "range_text (Some 900) None = ''bytes=900-''"
  "str_int 100 = ''100''" "str_int 199 = ''199''" "str_int 1000 = ''1000''"
  "str_int 900 = ''900''" "str_int 999 = ''999''"
  "within_digit_limit (Some 100)" "within_digit_limit (Some 199)"
  "within_digit_limit (Some 900)" "within_digit_limit None"
  by code_simp+

lemma py_replace_subset: "set (py_replace old [] s) \<subseteq> set s"
proof (induction old "[] :: string" s rule: py_replace.induct)
  case (1 old s)
  show ?case
  proof (cases "old = [] \<or> s = []")
    case True
    then show ?thesis by (subst py_replace.simps) auto
  next
    case False
    show ?thesis
    proof (cases "take (length old) s = old")
      case True
      with False 1(1) have "set (py_replace old [] (drop (length old) s)) \<subseteq> set (drop (length old) s)"
        by simp
      also have "\<dots> \<subseteq> set s" by (rule set_drop_subset)
      finally show ?thesis using True False by (subst py_replace.simps) simp
    next
      case F: False
      with False 1(2) have "set (py_replace old [] (tl s)) \<subseteq> set (tl s)" by simp
      moreover have "set s = insert (hd s) (set (tl s))" using False by (cases s) auto
      ultimately show ?thesis using F False by (subst py_replace.simps) auto
    qed
  qed
qed

lemma stream_response_no_dash:
  assumes "h \<noteq> []" and "CHR ''-'' \<notin> set h"
  shows "isl (stream_response content ft (Some h))"
proof -
  have "CHR ''-'' \<notin> set (py_replace ''bytes='' [] h)"
    using assms(2) py_replace_subset[of "''bytes=''" h] by auto
  then have "py_split CHR ''-'' (py_replace ''bytes='' [] h) = [py_replace ''bytes='' [] h]"
    by (rule py_split_absent)
  then show ?thesis
    using assms(1)
    by (simp add: stream_response_def Let_def py_index_def split: sum.splits)
qed

lemma stream_response_nonempty:
  assumes "h \<noteq> []"
  shows "case stream_response content ft (Some h) of
           Inl e \<Rightarrow> True | Inr r \<Rightarrow> status_code r = 206"
  using assms by (simp add: stream_response_def Let_def split: sum.splits)

lemma stream_response_absent:
  assumes "h = None \<or> h = Some []"
  shows "stream_response content ft h =
     Inr \<lparr>status_code = 200,
          headers = [(''Content-Type'', ft),
                     (''Content-Length'', str_int (int (length content))),
                     (''Accept-Ranges'', ''bytes''),
                     (''Cache-Control'', ''no-cache, no-store, must-revalidate''),
                     (''Pragma'', ''no-cache''),
                     (''Expires'', ''0'')],
          body = content, media_type = ft\<rparr>"
  using assms
  by (auto simp: stream_response_def Let_def concat_generate STREAMING_CHUNK_SIZE_def)

lemma example_parses:
  "py_split CHR ''-'' (py_replace ''bytes='' [] ''bytes=abc-def'') = [''abc'', ''def'']"
  "py_int ''abc'' = Inl (ValueError (''invalid literal for int() with base 10: '' @
                                     [CHR 0x27] @ ''abc'' @ [CHR 0x27]))"
  "py_split CHR ''-'' (py_replace ''bytes='' [] ''bytes=5'') = [''5'']"
  "py_int ''5'' = Inr 5"
  by code_simp+

lemma example_stream_facts:
  "get_video_by_id example_db ''v1'' = Some example_video"
  "status example_video = COMPLETED"
  "file_type example_video = ''video/mp4''"
  "record_video_view example_db ''v1''
      (case x_session_id (range_request r) of Some s \<Rightarrow> s | None \<Rightarrow> ''u1'') None
      (Some (client_host (range_request r))) (req_user_agent (range_request r)) ''n1'' 5 =
   Inr (example_db\<lparr>view_sessions :=
                     [new_view_session ''n1'' ''v1'' ''s1'' None (Some ''10.0.0.1'') None 5],
                   videos := [example_video\<lparr>view_count := 1\<rparr>]\<rparr>,
        new_view_session ''n1'' ''v1'' ''s1'' None (Some ''10.0.0.1'') None 5)"
  "range_hdr (range_request r) = r"
  by (simp_all add: record_video_view_def range_request_def example_db_def example_video_def
        select_view_session_def get_video_by_id_def write_back_def Let_def)

section \<open>Streaming delivery: theorems\<close>

text \<open>
  Claim C1, as amended. For a completed video whose object is \<open>content\<close> and a Range
  header \<open>bytes=start-end\<close> (either number may be missing), \<open>stream_video\<close> answers
  206 with \<open>Content-Range: bytes {start}-{end}/{totalLength}\<close>, where start is the
  given start or 0 and end is the given end or totalLength-1, and with the body
  \<open>content[start : end + 1]\<close>, for numbers of at most 4300 digits. The end is not
  clamped. When \<open>start \<le> end + 1\<close> and
  \<open>end \<le> totalLength - 1\<close>, the body is exactly \<open>end - start + 1\<close> bytes, the
  bytes from start to end, and Content-Length says so.
\<close>

theorem range_response:
  assumes "get_video_by_id d vid = Some video" and "status video = COMPLETED"
    and "record_video_view d vid (case x_session_id req of Some s \<Rightarrow> s | None \<Rightarrow> u) None
           (Some (client_host req)) (req_user_agent req) n now = Inr (d1, vs)"
    and "range_hdr req = Some (range_text a b)"
    and "within_digit_limit a" and "within_digit_limit b"
  shows "\<exists>r. snd (stream_video d vid req (Inr content) u n now) = Inr r \<and>
           status_code r = 206 \<and>
           map_of (headers r) ''Content-Range'' =
             Some (''bytes '' @ str_int (range_start a) @ ''-'' @ str_int (range_end b content) @
                   ''/'' @ str_int (int (length content))) \<and>
           body r = py_slice content (range_start a) (range_end b content + 1) \<and>
           (range_start a \<le> range_end b content + 1 \<and> range_end b content < int (length content)
              \<longrightarrow> int (length (body r)) = range_end b content - range_start a + 1 \<and>
                  body r = take (nat (range_end b content - range_start a + 1))
                             (drop (nat (range_start a)) content) \<and>
                  map_of (headers r) ''Content-Length'' =
                    Some (str_int (range_end b content - range_start a + 1)))"
proof -
  have s0: "0 \<le> range_start a" by (simp add: range_start_def split: option.splits)
  have inner: "py_slice content (range_start a) (range_end b content + 1) =
        take (nat (range_end b content - range_start a + 1)) (drop (nat (range_start a)) content) \<and>
      int (length (py_slice content (range_start a) (range_end b content + 1))) =
        range_end b content - range_start a + 1"
    if "range_start a \<le> range_end b content + 1" "range_end b content < int (length content)"
    using py_slice_inner[of "range_start a" "range_end b content + 1" content] s0 that
    by (simp add: algebra_simps)
  let ?P = "py_slice content (range_start a) (range_end b content + 1)"
  define r where "r = \<lparr>status_code = 206,
          headers =
            [(''Content-Type'', file_type video),
             (''Content-Length'', str_int (int (length ?P))),
             (''Accept-Ranges'', ''bytes''),
             (''Cache-Control'', ''no-cache, no-store, must-revalidate''),
             (''Pragma'', ''no-cache''),
             (''Expires'', ''0''),
             (''Content-Range'',
                ''bytes '' @ str_int (range_start a) @ ''-'' @ str_int (range_end b content) @
                ''/'' @ str_int (int (length content)))],
          body = ?P, media_type = file_type video\<rparr>"
  have res: "snd (stream_video d vid req (Inr content) u n now) = Inr r"
    unfolding stream_video_ok[OF assms(1-3)] assms(4) stream_response_range[OF assms(5,6)] r_def
    by simp
  have sc: "status_code r = 206" and bd: "body r = ?P"
    and cr: "map_of (headers r) ''Content-Range'' =
             Some (''bytes '' @ str_int (range_start a) @ ''-'' @ str_int (range_end b content) @
                   ''/'' @ str_int (int (length content)))"
    and cl: "map_of (headers r) ''Content-Length'' = Some (str_int (int (length ?P)))"
    by (simp_all add: r_def)
  have bounded: "int (length (body r)) = range_end b content - range_start a + 1 \<and>
                  body r = take (nat (range_end b content - range_start a + 1))
                             (drop (nat (range_start a)) content) \<and>
                  map_of (headers r) ''Content-Length'' =
                    Some (str_int (range_end b content - range_start a + 1))"
    if "range_start a \<le> range_end b content + 1 \<and> range_end b content < int (length content)"
  proof -
    from that inner have i1: "?P = take (nat (range_end b content - range_start a + 1))
          (drop (nat (range_start a)) content)"
      and i2: "int (length ?P) = range_end b content - range_start a + 1" by blast+
    show ?thesis unfolding bd cl i2 using i1 by simp
  qed
  from res sc cr bd bounded show ?thesis by blast
qed

text \<open>
  An instance: a 1000-byte object with \<open>Range: bytes=100-199\<close> gives 206,
  \<open>bytes 100-199/1000\<close> and 100 bytes; \<open>bytes=900-\<close> gives bytes 900 to 999.
\<close>

theorem range_response_witness:
  "map_sum id (\<lambda>r. (status_code r, map_of (headers r) ''Content-Range'', length (body r)))
     (snd (stream_video example_db ''v1'' (range_request (Some ''bytes=100-199''))
             (Inr kilobyte) ''u1'' ''n1'' 5)) =
     Inr (206, Some ''bytes 100-199/1000'', 100) \<and>
   map_sum id (\<lambda>r. (status_code r, map_of (headers r) ''Content-Range'', length (body r)))
     (snd (stream_video example_db ''v1'' (range_request (Some ''bytes=900-''))
             (Inr kilobyte) ''u1'' ''n1'' 5)) =
     Inr (206, Some ''bytes 900-999/1000'', 100)"
proof -
  have a: "get_video_by_id example_db ''v1'' = Some example_video"
    by (simp add: example_db_def example_video_def get_video_by_id_def)
  have b: "status example_video = COMPLETED" by (simp add: example_video_def)
  obtain d1 vs where c: "record_video_view example_db ''v1''
      (case x_session_id (range_request r) of Some s \<Rightarrow> s | None \<Rightarrow> ''u1'') None
      (Some (client_host (range_request r))) (req_user_agent (range_request r)) ''n1'' 5 =
      Inr (d1, vs)" for r
    by (simp add: record_video_view_def range_request_def example_db_def
        select_view_session_def Let_def)
  have h1: "range_hdr (range_request (Some ''bytes=100-199'')) = Some (range_text (Some 100) (Some 199))"
    and h2: "range_hdr (range_request (Some ''bytes=900-'')) = Some (range_text (Some 900) None)"
    by (simp_all add: range_request_def example_texts)
  from range_response[OF a b c h1 example_texts(8,9), of kilobyte]
  have 1: "map_sum id (\<lambda>r. (status_code r, map_of (headers r) ''Content-Range'', length (body r)))
     (snd (stream_video example_db ''v1'' (range_request (Some ''bytes=100-199''))
             (Inr kilobyte) ''u1'' ''n1'' 5)) =
     Inr (206, Some ''bytes 100-199/1000'', 100)"
    by (auto simp: range_start_def range_end_def kilobyte_length example_texts)
  from range_response[OF a b c h2 example_texts(10,11), of kilobyte]
  have 2: "map_sum id (\<lambda>r. (status_code r, map_of (headers r) ''Content-Range'', length (body r)))
     (snd (stream_video example_db ''v1'' (range_request (Some ''bytes=900-''))
             (Inr kilobyte) ''u1'' ''n1'' 5)) =
     Inr (206, Some ''bytes 900-999/1000'', 100)"
    by (auto simp: range_start_def range_end_def kilobyte_length example_texts)
  from 1 2 show ?thesis by simp
qed

text \<open>
  Claim C1 as stated fails: for \<open>Range: bytes=100-1999\<close> on the 1000-byte object the
  header reports the end 1999 unclamped, and the body has 900 bytes, not
  \<open>end - start + 1\<close>.
\<close>

theorem unclamped_range_counterexample:
  "map_sum id status_code
     (snd (stream_video example_db ''v1'' (range_request (Some ''bytes=100-1999''))
             (Inr kilobyte) ''u1'' ''n1'' 5)) = Inr 206 \<and>
   map_sum id headers
     (snd (stream_video example_db ''v1'' (range_request (Some ''bytes=100-1999''))
             (Inr kilobyte) ''u1'' ''n1'' 5)) =
     Inr [(''Content-Type'', ''video/mp4''),
          (''Content-Length'', ''900''),
          (''Accept-Ranges'', ''bytes''),
          (''Cache-Control'', ''no-cache, no-store, must-revalidate''),
          (''Pragma'', ''no-cache''),
          (''Expires'', ''0''),
          (''Content-Range'', ''bytes 100-1999/1000'')] \<and>
   map_sum id (length \<circ> body)
     (snd (stream_video example_db ''v1'' (range_request (Some ''bytes=100-1999''))
             (Inr kilobyte) ''u1'' ''n1'' 5)) = Inr 900"
proof -
  have a: "get_video_by_id example_db ''v1'' = Some example_video"
    by (simp add: example_db_def example_video_def get_video_by_id_def)
  have b: "status example_video = COMPLETED" by (simp add: example_video_def)
  obtain d1 vs where c: "record_video_view example_db ''v1''
      (case x_session_id (range_request r) of Some s \<Rightarrow> s | None \<Rightarrow> ''u1'') None
      (Some (client_host (range_request r))) (req_user_agent (range_request r)) ''n1'' 5 =
      Inr (d1, vs)" for r
    by (simp add: record_video_view_def range_request_def example_db_def
        select_view_session_def Let_def)
  have t: "range_text (Some 100) (Some 1999) = ''bytes=100-1999''"
    "str_int 100 = ''100''" "str_int 1999 = ''1999''" "str_int 1000 = ''1000''"
    "within_digit_limit (Some 100)" "within_digit_limit (Some 1999)"
    "str_int 900 = ''900''"
    by code_simp+
  have h: "range_hdr (range_request (Some ''bytes=100-1999'')) =
      Some (range_text (Some 100) (Some 1999))"
    by (simp add: range_request_def t)
  show ?thesis
    unfolding stream_video_ok[OF a b c] h stream_response_range[OF t(5,6)]
    by (simp add: range_start_def range_end_def kilobyte_length py_slice_def t
        example_video_def)
qed

text \<open>
  Claim C8, as amended. On a completed video, only an absent or empty Range header is
  answered with the full body and status 200. A Range header that is not empty is never
  treated as absent: the answer is 206, or the HTTP 500 error \<open>Streaming failed\<close> when
  parsing the header raises; it does raise for every header without a \<open>-\<close>.
\<close>

theorem malformed_range_handling:
  assumes "get_video_by_id d vid = Some video" and "status video = COMPLETED"
    and "record_video_view d vid (case x_session_id req of Some s \<Rightarrow> s | None \<Rightarrow> u) None
           (Some (client_host req)) (req_user_agent req) n now = Inr (d1, vs)"
  shows "(range_hdr req = None \<or> range_hdr req = Some [] \<longrightarrow>
            snd (stream_video d vid req (Inr content) u n now) =
              Inr \<lparr>status_code = 200,
                   headers = [(''Content-Type'', file_type video),
                              (''Content-Length'', str_int (int (length content))),
                              (''Accept-Ranges'', ''bytes''),
                              (''Cache-Control'', ''no-cache, no-store, must-revalidate''),
                              (''Pragma'', ''no-cache''),
                              (''Expires'', ''0'')],
                   body = content, media_type = file_type video\<rparr>) \<and>
         (\<forall>h. range_hdr req = Some h \<and> h \<noteq> [] \<longrightarrow>
            (case snd (stream_video d vid req (Inr content) u n now) of
               Inl e \<Rightarrow> \<exists>m. e = HTTPException 500 (''Streaming failed: '' @ m)
             | Inr r \<Rightarrow> status_code r = 206)) \<and>
         (\<forall>h. range_hdr req = Some h \<and> h \<noteq> [] \<and> CHR ''-'' \<notin> set h \<longrightarrow>
            isl (snd (stream_video d vid req (Inr content) u n now)))"
proof (intro conjI allI impI)
  assume "range_hdr req = None \<or> range_hdr req = Some []"
  from stream_response_absent[OF this, of content "file_type video"]
  show "snd (stream_video d vid req (Inr content) u n now) =
              Inr \<lparr>status_code = 200,
                   headers = [(''Content-Type'', file_type video),
                              (''Content-Length'', str_int (int (length content))),
                              (''Accept-Ranges'', ''bytes''),
                              (''Cache-Control'', ''no-cache, no-store, must-revalidate''),
                              (''Pragma'', ''no-cache''),
                              (''Expires'', ''0'')],
                   body = content, media_type = file_type video\<rparr>"
    unfolding stream_video_ok[OF assms] by simp
next
  fix h assume "range_hdr req = Some h \<and> h \<noteq> []"
  then show "case snd (stream_video d vid req (Inr content) u n now) of
               Inl e \<Rightarrow> \<exists>m. e = HTTPException 500 (''Streaming failed: '' @ m)
             | Inr r \<Rightarrow> status_code r = 206"
    unfolding stream_video_ok[OF assms]
    using stream_response_nonempty[of h content "file_type video"]
    by (auto split: sum.splits)
next
  fix h assume "range_hdr req = Some h \<and> h \<noteq> [] \<and> CHR ''-'' \<notin> set h"
  then show "isl (snd (stream_video d vid req (Inr content) u n now))"
    unfolding stream_video_ok[OF assms]
    using stream_response_no_dash[of h content "file_type video"]
    by (auto split: sum.splits)
qed

text \<open>
  An instance: no Range header gives 200 and all 1000 bytes; \<open>Range: bytes=5\<close> fails
  with HTTP 500.
\<close>

theorem malformed_range_handling_witness:
  "map_sum id (\<lambda>r. (status_code r, length (body r)))
     (snd (stream_video example_db ''v1'' (range_request None) (Inr kilobyte) ''u1'' ''n1'' 5)) =
     Inr (200, 1000) \<and>
   snd (stream_video example_db ''v1'' (range_request (Some ''bytes=5''))
          (Inr kilobyte) ''u1'' ''n1'' 5) =
     Inl (HTTPException 500 ''Streaming failed: list index out of range'')"
proof -
  note pre = example_stream_facts(1,2,4)
  have 1: "map_sum id (\<lambda>r. (status_code r, length (body r)))
     (snd (stream_video example_db ''v1'' (range_request None) (Inr kilobyte) ''u1'' ''n1'' 5)) =
     Inr (200, 1000)"
    using malformed_range_handling[OF pre, of None kilobyte, THEN conjunct1]
    by (simp add: kilobyte_length example_stream_facts(5))
  have "isl (snd (stream_video example_db ''v1'' (range_request (Some ''bytes=5''))
          (Inr kilobyte) ''u1'' ''n1'' 5))"
    using malformed_range_handling[OF pre, of "Some ''bytes=5''" kilobyte,
        THEN conjunct2, THEN conjunct2]
    by (simp add: example_stream_facts(5))
  moreover have "stream_response kilobyte ''video/mp4'' (Some ''bytes=5'') =
      Inl (IndexError ''list index out of range'')"
    by (simp add: stream_response_def Let_def example_parses py_index_def)
  ultimately show ?thesis
    using 1 unfolding stream_video_ok[OF pre] example_stream_facts(3,5) by simp
qed

text \<open>
  Claim C8 as stated fails: \<open>Range: bytes=abc-def\<close> is answered with HTTP 500, where the
  same request without the header is answered with 200.
\<close>

theorem malformed_range_counterexample:
  "snd (stream_video example_db ''v1'' (range_request (Some ''bytes=abc-def''))
          (Inr kilobyte) ''u1'' ''n1'' 5) =
     Inl (HTTPException 500
            (''Streaming failed: invalid literal for int() with base 10: '' @
             [CHR 0x27] @ ''abc'' @ [CHR 0x27])) \<and>
   map_sum id status_code
     (snd (stream_video example_db ''v1'' (range_request None) (Inr kilobyte) ''u1'' ''n1'' 5)) =
     Inr 200"
proof -
  have 1: "stream_response kilobyte ''video/mp4'' (Some ''bytes=abc-def'') =
      Inl (ValueError (''invalid literal for int() with base 10: '' @
                        [CHR 0x27] @ ''abc'' @ [CHR 0x27]))"
    by (simp add: stream_response_def Let_def example_parses)
  note 2 = stream_response_absent[of None kilobyte "''video/mp4''", simplified]
  show ?thesis
    unfolding stream_video_ok[OF example_stream_facts(1,2,4)] example_stream_facts(3,5) 1 2
    by simp
qed

end
